theory Spec2Isabelle
  imports Main "HOL-Library.Word" "HOL-Library.Multiset"
begin

unbundle bit_operations_syntax

section \<open>Data shared by the two packages\<close>

text \<open>
  The development covers the two Go packages that decide whether a peer's certificate
  chain is trusted: package \<open>tls\<close> (global fingerprints, chain validation with a
  fingerprint fallback) and package \<open>ca\<close> (the composed certificate pool, the
  pin-only callback). Functions that exist in both packages carry the package name as
  a prefix.

  A Go \<open>string\<close> is a byte string and is modelled as \<open>string\<close>; a \<open>[]byte\<close> is a list
  of 8-bit words; a \<open>[32]byte\<close> fingerprint is a list of bytes whose length the code
  checks before the conversion.
\<close>

type_synonym byte = "8 word"
type_synonym bytes = "byte list"
type_synonym fingerprint = "byte list"

text \<open>
  Go errors as values. \<open>InvalidByteError\<close> and \<open>ErrLength\<close> are the two errors of
  \<open>encoding/hex\<close>; \<open>Errorf\<close> stands for an error made by \<open>fmt.Errorf\<close> or
  \<open>errors.New\<close> with the given text; \<open>X509Error\<close> is an error of \<open>crypto/x509\<close>.
  A Go \<open>error\<close> result is an \<open>error option\<close>, \<open>None\<close> being \<open>nil\<close>.
\<close>

datatype error =
    InvalidByteError char
  | ErrLength
  | Errorf string
  | X509Error string

text \<open>
  An \<open>x509.Certificate\<close>. Every other field of the Go struct is computed from the DER
  bytes by the parser, so the model keeps \<open>Raw\<close> only.
\<close>

record Certificate =
  Raw :: bytes

text \<open>
  The functions of the Go standard library that the code calls and whose result
  depends on cryptography, on the clock or on the operating system. They are parameters
  of the model:
  \<^item> \<open>ParseCertificate\<close>: \<open>x509.ParseCertificate\<close>, \<open>None\<close> when it returns an error
    (and a nil certificate);
  \<^item> \<open>Verify\<close>: \<open>cert.Verify(x509.VerifyOptions{CurrentTime: time.Now()})\<close>, the
    returned error;
  \<^item> \<open>Sum256\<close>: \<open>sha256.Sum256\<close>;
  \<^item> \<open>pem_Decode\<close>: \<open>pem.Decode\<close>, the \<open>Bytes\<close> of the first block, \<open>None\<close> when
    the block is nil;
  \<^item> \<open>certsFromPEM\<close>: the certificates that \<open>AppendCertsFromPEM\<close> finds in PEM data
    and parses, in their order;
  \<^item> \<open>SystemCertPool\<close>: \<open>x509.SystemCertPool\<close>, the roots of the operating system or
    an error;
  \<^item> \<open>ReadFile\<close>: \<open>os.ReadFile(C.Path.Resolve(name))\<close>;
  \<^item> \<open>ParseCert\<close>: \<open>CN.ParseCert(certificate, privateKey, C.Path)\<close> of this
    repository's package \<open>common/net\<close>, which is not among the sources: the
    \<open>Certificate\<close> field of the returned key pair (the DER chain) and the error;
  \<^item> \<open>anchors\<close>: \<open>anchors root rawCerts\<close> holds when chain validation of the
    presented certificates finds a path that ends in \<open>root\<close> and is valid now;
  \<^item> \<open>Fatalln_exits\<close>: whether \<open>log.Fatalln\<close> of this repository's package \<open>log\<close>,
    which is not among the sources, ends the process. A fatal log call does (the
    package hands the message to logrus' \<open>Fatalf\<close>, which logs and calls
    \<open>os.Exit(1)\<close>); the model keeps both cases, so that the statement after the call
    is modelled as well.
\<close>

type_synonym CertPool = "Certificate list"

record stdlib =
  ParseCertificate :: "bytes \<Rightarrow> Certificate option"
  Verify :: "Certificate \<Rightarrow> error option"
  Sum256 :: "bytes \<Rightarrow> fingerprint"
  pem_Decode :: "string \<Rightarrow> bytes option"
  certsFromPEM :: "string \<Rightarrow> Certificate list"
  SystemCertPool :: "error + CertPool"
  ReadFile :: "string \<Rightarrow> error + string"
  ParseCert :: "string \<Rightarrow> string \<Rightarrow> bytes list \<times> error option"
  anchors :: "Certificate \<Rightarrow> bytes list \<Rightarrow> bool"
  Fatalln_exits :: bool

text \<open>
  The calls on a mutex, the assignments to package-level variables (and the additions
  to the pool that one of them points to) and the warnings logged, in the order in
  which a function performs them.
\<close>

datatype event = Lock | Unlock | Write string | Warnln string

text \<open>
  How a call ends: it returns a value, it panics, or the process exits inside it.
\<close>

datatype 'a outcome = Returns 'a | Panics string | Exits

text \<open>
  The fields of \<open>crypto/tls.Config\<close> that the code reads or assigns. The type of the
  callback differs between the packages and is a parameter.
\<close>

record 'cb Config =
  RootCAs :: "CertPool option"
  InsecureSkipVerify :: bool
  VerifyPeerCertificate :: "'cb option"

section \<open>encoding/hex\<close>

text \<open>
  \<open>hex.DecodeString\<close> of the Go standard library: two hexadecimal digits of either
  letter case give one byte; the first byte that is no digit is reported, and a
  string of odd length whose characters are all digits is \<open>ErrLength\<close>.
\<close>

definition fromHexChar :: "char \<Rightarrow> byte option" where
  "fromHexChar c =
     (let n = (of_char c :: nat) in
      if 48 \<le> n \<and> n \<le> 57 then Some (of_nat (n - 48))
      else if 97 \<le> n \<and> n \<le> 102 then Some (of_nat (n - 97 + 10))
      else if 65 \<le> n \<and> n \<le> 70 then Some (of_nat (n - 65 + 10))
      else None)"

fun DecodeString :: "string \<Rightarrow> error + bytes" where
  "DecodeString [] = Inr []"
| "DecodeString [p] =
     (case fromHexChar p of None \<Rightarrow> Inl (InvalidByteError p) | Some a \<Rightarrow> Inl ErrLength)"
| "DecodeString (p # q # src) =
     (case fromHexChar p of
        None \<Rightarrow> Inl (InvalidByteError p)
      | Some a \<Rightarrow>
          (case fromHexChar q of
             None \<Rightarrow> Inl (InvalidByteError q)
           | Some b \<Rightarrow>
               (case DecodeString src of
                  Inl err \<Rightarrow> Inl err
                | Inr dst \<Rightarrow> Inr ((push_bit 4 a OR b) # dst))))"

section \<open>Package tls\<close>

subsection \<open>State\<close>

text \<open>
  The package-level variable \<open>globalFingerprints\<close>, and the trace of what the
  package's functions did to it and to \<open>mutex\<close>.
\<close>

record tls_state =
  globalFingerprints :: "fingerprint list"
  tls_trace :: "event list"

definition tls_init :: tls_state where
  "tls_init = \<lparr>globalFingerprints = [], tls_trace = []\<rparr>"

text \<open>
  The callback is given a pointer to a slice of fingerprints: the address of the global
  variable, read at each handshake, or the address of a slice literal that nothing else
  can reach.
\<close>

datatype fingerprints_ptr = Addr_globalFingerprints | Addr_literal "fingerprint list"

fun deref :: "tls_state \<Rightarrow> fingerprints_ptr \<Rightarrow> fingerprint list" where
  "deref s Addr_globalFingerprints = globalFingerprints s"
| "deref s (Addr_literal fps) = fps"

text \<open>
  A callback of package tls: the package state at the time of the handshake, the raw
  certificates, the chains verified by the transport; the result is the returned error.
\<close>

type_synonym tls_callback =
  "tls_state \<Rightarrow> bytes list \<Rightarrow> Certificate list list \<Rightarrow> error option"

subsection \<open>verifyPeerCertificateAndFingerprints\<close>

text \<open>The inner loop over \<open>*fingerprints\<close>: does some entry equal the certificate's digest?\<close>

fun range_fingerprints :: "fingerprint \<Rightarrow> fingerprint list \<Rightarrow> bool" where
  "range_fingerprints fingerprint [] = False"
| "range_fingerprints fingerprint (fp # fps) =
     (if fingerprint = fp then True else range_fingerprints fingerprint fps)"

text \<open>
  The outer loop over \<open>rawCerts\<close>, with \<open>preErr\<close> as an accumulator; the value is what
  the callback returns.
\<close>

fun range_rawCerts ::
  "stdlib \<Rightarrow> fingerprint list \<Rightarrow> error option \<Rightarrow> bytes list \<Rightarrow> error option" where
  "range_rawCerts L fps preErr [] = preErr"
| "range_rawCerts L fps preErr (rawCert # rawCerts) =
     (case ParseCertificate L rawCert of
        None \<Rightarrow> range_rawCerts L fps preErr rawCerts
      | Some cert \<Rightarrow>
          (case Verify L cert of
             None \<Rightarrow> None
           | Some err \<Rightarrow>
               if range_fingerprints (Sum256 L (Raw cert)) fps then None
               else range_rawCerts L fps (Some err) rawCerts))"

definition verifyPeerCertificateAndFingerprints ::
  "stdlib \<Rightarrow> fingerprints_ptr \<Rightarrow> bool \<Rightarrow> tls_callback" where
  "verifyPeerCertificateAndFingerprints L fingerprints insecureSkipVerify =
     (\<lambda>s rawCerts verifiedChains.
        if insecureSkipVerify then None
        else range_rawCerts L (deref s fingerprints) None rawCerts)"

subsection \<open>Fingerprints\<close>

definition tls_convertFingerprint :: "string \<Rightarrow> error + fingerprint" where
  "tls_convertFingerprint fingerprint =
     (case DecodeString fingerprint of
        Inl err \<Rightarrow> Inl err
      | Inr fpByte \<Rightarrow>
          if length fpByte \<noteq> 32
          then Inl (Errorf ''fingerprint string length error,need sha25 fingerprint'')
          else Inr fpByte)"

definition tls_lock :: "tls_state \<Rightarrow> tls_state" where
  "tls_lock s = s\<lparr>tls_trace := tls_trace s @ [Lock]\<rparr>"

definition tls_unlock :: "tls_state \<Rightarrow> tls_state" where
  "tls_unlock s = s\<lparr>tls_trace := tls_trace s @ [Unlock]\<rparr>"

definition set_globalFingerprints :: "fingerprint list \<Rightarrow> tls_state \<Rightarrow> tls_state" where
  "set_globalFingerprints v s =
     s\<lparr>globalFingerprints := v, tls_trace := tls_trace s @ [Write ''globalFingerprints'']\<rparr>"

definition AddCertFingerprint :: "string \<Rightarrow> tls_state \<Rightarrow> error option \<times> tls_state" where
  "AddCertFingerprint fingerprint s =
     (case tls_convertFingerprint fingerprint of
        Inl err2 \<Rightarrow> (Some err2, s)
      | Inr fpByte \<Rightarrow>
          (None,
           tls_unlock (set_globalFingerprints (globalFingerprints s @ [fpByte]) (tls_lock s))))"

subsection \<open>Configurations\<close>

text \<open>
  A \<open>*tls.Config\<close> argument is \<open>None\<close> for nil. A non-nil configuration is updated in
  place and returned, so the result is the caller's configuration with two fields
  changed.
\<close>

definition tls_GetSpecifiedFingerprintTLSConfig ::
  "stdlib \<Rightarrow> tls_callback Config option \<Rightarrow> string \<Rightarrow> error + tls_callback Config" where
  "tls_GetSpecifiedFingerprintTLSConfig L tlsConfig fingerprint =
     (case tls_convertFingerprint fingerprint of
        Inl err \<Rightarrow> Inl err
      | Inr fingerprintBytes \<Rightarrow>
          (case tlsConfig of
             None \<Rightarrow>
               Inr \<lparr>RootCAs = None, InsecureSkipVerify = True,
                    VerifyPeerCertificate =
                      Some (verifyPeerCertificateAndFingerprints L
                              (Addr_literal [fingerprintBytes]) False)\<rparr>
           | Some c \<Rightarrow>
               Inr (c\<lparr>VerifyPeerCertificate :=
                         Some (verifyPeerCertificateAndFingerprints L
                                 (Addr_literal [fingerprintBytes]) (InsecureSkipVerify c)),
                       InsecureSkipVerify := True\<rparr>)))"

definition GetGlobalFingerprintTLSConfig ::
  "stdlib \<Rightarrow> tls_callback Config option \<Rightarrow> tls_state \<Rightarrow> tls_callback Config" where
  "GetGlobalFingerprintTLSConfig L tlsConfig s =
     (let shouldSkipVerify =
            (length (globalFingerprints s) \<noteq> 0
             \<or> (case tlsConfig of None \<Rightarrow> False | Some c \<Rightarrow> InsecureSkipVerify c))
      in case tlsConfig of
           None \<Rightarrow>
             \<lparr>RootCAs = None, InsecureSkipVerify = shouldSkipVerify,
              VerifyPeerCertificate =
                Some (verifyPeerCertificateAndFingerprints L Addr_globalFingerprints False)\<rparr>
         | Some c \<Rightarrow>
             c\<lparr>VerifyPeerCertificate :=
                 Some (verifyPeerCertificateAndFingerprints L Addr_globalFingerprints
                         (InsecureSkipVerify c)),
               InsecureSkipVerify := shouldSkipVerify\<rparr>)"

definition GetDefaultTLSConfig :: "stdlib \<Rightarrow> tls_state \<Rightarrow> tls_callback Config" where
  "GetDefaultTLSConfig L s = GetGlobalFingerprintTLSConfig L None s"

section \<open>strings\<close>

text \<open>\<open>strings.Replace(s, ":", "", -1)\<close>: every colon is removed.\<close>

definition Replace_colons :: "string \<Rightarrow> string" where
  "Replace_colons s = filter (\<lambda>c. c \<noteq> CHR '':'') s"

text \<open>
  \<open>strings.TrimSpace\<close> removes the leading and the trailing white space, as defined by
  Unicode. On the bytes of a string a white-space character is one of the UTF-8
  encodings below: tab, line feed, vertical tab, form feed, carriage return, space,
  U+0085, U+00A0, U+1680, U+2000 to U+200A, U+2028, U+2029, U+202F, U+205F, U+3000.
  Bytes that are not valid UTF-8 decode to U+FFFD, which is no white space.
\<close>

definition white_space :: "string list" where
  "white_space =
     [[CHR 0x09], [CHR 0x0A], [CHR 0x0B], [CHR 0x0C], [CHR 0x0D], [CHR 0x20],
      [CHR 0xC2, CHR 0x85], [CHR 0xC2, CHR 0xA0], [CHR 0xE1, CHR 0x9A, CHR 0x80],
      [CHR 0xE2, CHR 0x80, CHR 0x80], [CHR 0xE2, CHR 0x80, CHR 0x81],
      [CHR 0xE2, CHR 0x80, CHR 0x82], [CHR 0xE2, CHR 0x80, CHR 0x83],
      [CHR 0xE2, CHR 0x80, CHR 0x84], [CHR 0xE2, CHR 0x80, CHR 0x85],
      [CHR 0xE2, CHR 0x80, CHR 0x86], [CHR 0xE2, CHR 0x80, CHR 0x87],
      [CHR 0xE2, CHR 0x80, CHR 0x88], [CHR 0xE2, CHR 0x80, CHR 0x89],
      [CHR 0xE2, CHR 0x80, CHR 0x8A], [CHR 0xE2, CHR 0x80, CHR 0xA8],
      [CHR 0xE2, CHR 0x80, CHR 0xA9], [CHR 0xE2, CHR 0x80, CHR 0xAF],
      [CHR 0xE2, CHR 0x81, CHR 0x9F], [CHR 0xE3, CHR 0x80, CHR 0x80]]"

definition leading_space :: "string \<Rightarrow> string option" where
  "leading_space s = find (\<lambda>p. take (length p) s = p) white_space"

definition trailing_space :: "string \<Rightarrow> string option" where
  "trailing_space s =
     find (\<lambda>p. length p \<le> length s \<and> drop (length s - length p) s = p) white_space"

function TrimLeft :: "string \<Rightarrow> string" where
  "TrimLeft s =
     (case leading_space s of None \<Rightarrow> s | Some p \<Rightarrow> TrimLeft (drop (length p) s))"
  by pat_completeness auto
termination
proof (relation "measure length")
  show "wf (measure length)" by simp
next
  fix s p :: string
  assume "leading_space s = Some p"
  then have "p \<in> set white_space" and "take (length p) s = p"
    by (auto simp: leading_space_def find_Some_iff)
  moreover have "[] \<notin> set white_space"
    by (simp add: white_space_def)
  ultimately have "p \<noteq> []" and "s \<noteq> []"
    by auto
  then show "(drop (length p) s, s) \<in> measure length"
    by simp
qed

function TrimRight :: "string \<Rightarrow> string" where
  "TrimRight s =
     (case trailing_space s of
        None \<Rightarrow> s
      | Some p \<Rightarrow> TrimRight (take (length s - length p) s))"
  by pat_completeness auto
termination
proof (relation "measure length")
  show "wf (measure length)" by simp
next
  fix s p :: string
  assume "trailing_space s = Some p"
  then have "p \<in> set white_space" and "length p \<le> length s"
    by (auto simp: trailing_space_def find_Some_iff)
  moreover have "[] \<notin> set white_space"
    by (simp add: white_space_def)
  ultimately have "p \<noteq> []" and "s \<noteq> []"
    by auto
  then show "(take (length s - length p) s, s) \<in> measure length"
    by simp
qed

declare TrimLeft.simps [simp del] TrimRight.simps [simp del]

definition TrimSpace :: "string \<Rightarrow> string" where
  "TrimSpace s = TrimRight (TrimLeft s)"

section \<open>Package ca\<close>

subsection \<open>State and environment\<close>

text \<open>
  The package-level variables: \<open>trustCerts\<close>, a slice of pointers (\<open>None\<close> is a nil
  pointer), and \<open>globalCertPool\<close>, a pointer to a pool (\<open>None\<close> before the pool is
  first built); with them the trace of the package's calls on \<open>mutex\<close> and of its
  writes.
\<close>

record ca_state =
  trustCerts :: "Certificate option list"
  globalCertPool :: "CertPool option"
  ca_trace :: "event list"

definition ca_init :: ca_state where
  "ca_init = \<lparr>trustCerts = [], globalCertPool = None, ca_trace = []\<rparr>"

text \<open>
  What is fixed when the process starts: the two flags read from the environment and
  the embedded bundle \<open>_CaCertificates\<close>.
\<close>

record ca_env =
  DisableEmbedCa :: bool
  DisableSystemCa :: bool
  CaCertificates :: string

definition ca_lock :: "ca_state \<Rightarrow> ca_state" where
  "ca_lock s = s\<lparr>ca_trace := ca_trace s @ [Lock]\<rparr>"

definition ca_unlock :: "ca_state \<Rightarrow> ca_state" where
  "ca_unlock s = s\<lparr>ca_trace := ca_trace s @ [Unlock]\<rparr>"

definition log_Warnln :: "string \<Rightarrow> ca_state \<Rightarrow> ca_state" where
  "log_Warnln msg s = s\<lparr>ca_trace := ca_trace s @ [Warnln msg]\<rparr>"

definition set_trustCerts :: "Certificate option list \<Rightarrow> ca_state \<Rightarrow> ca_state" where
  "set_trustCerts v s = s\<lparr>trustCerts := v, ca_trace := ca_trace s @ [Write ''trustCerts'']\<rparr>"

definition set_globalCertPool :: "CertPool option \<Rightarrow> ca_state \<Rightarrow> ca_state" where
  "set_globalCertPool v s =
     s\<lparr>globalCertPool := v, ca_trace := ca_trace s @ [Write ''globalCertPool'']\<rparr>"

text \<open>Sequencing: the rest of a function runs only when the call before it returned.\<close>

definition and_then ::
  "'a outcome \<times> 's \<Rightarrow> ('a \<Rightarrow> 's \<Rightarrow> 'b outcome \<times> 's) \<Rightarrow> 'b outcome \<times> 's" where
  "and_then r f =
     (case r of
        (Returns x, s) \<Rightarrow> f x s
      | (Panics msg, s) \<Rightarrow> (Panics msg, s)
      | (Exits, s) \<Rightarrow> (Exits, s))"

text \<open>
  \<open>defer mutex.Unlock()\<close>: the unlock runs when the function returns and when it
  panics, not when the process exits.
\<close>

definition defer_Unlock :: "'a outcome \<times> ca_state \<Rightarrow> 'a outcome \<times> ca_state" where
  "defer_Unlock r =
     (case r of
        (Exits, s) \<Rightarrow> (Exits, s)
      | (out, s) \<Rightarrow> (out, ca_unlock s))"

subsection \<open>The pool\<close>

text \<open>
  The method \<open>AddCert\<close> of \<open>CertPool\<close> in \<open>crypto/x509\<close> on a pool and a certificate that are both
  not nil: a certificate already in the pool (the library compares the SHA-224 sums of
  the DER bytes) is not added again.
\<close>

definition AddCert :: "Certificate \<Rightarrow> CertPool \<Rightarrow> CertPool" where
  "AddCert cert pool = (if cert \<in> set pool then pool else pool @ [cert])"

text \<open>
  \<open>AppendCertsFromPEM\<close>: every certificate found in the data is added; the result
  tells whether there was one.
\<close>

definition AppendCertsFromPEM :: "stdlib \<Rightarrow> string \<Rightarrow> CertPool \<Rightarrow> CertPool \<times> bool" where
  "AppendCertsFromPEM L pemCerts pool =
     (fold AddCert (certsFromPEM L pemCerts) pool, certsFromPEM L pemCerts \<noteq> [])"

text \<open>
  \<open>globalCertPool.AddCert(cert)\<close>: the library panics on a nil certificate, and the
  method dereferences its receiver.
\<close>

definition globalCertPool_AddCert ::
  "Certificate option \<Rightarrow> ca_state \<Rightarrow> unit outcome \<times> ca_state" where
  "globalCertPool_AddCert cert s =
     (case cert of
        None \<Rightarrow> (Panics ''adding nil Certificate to CertPool'', s)
      | Some c \<Rightarrow>
          (case globalCertPool s of
             None \<Rightarrow> (Panics ''invalid memory address or nil pointer dereference'', s)
           | Some pool \<Rightarrow> (Returns (), set_globalCertPool (Some (AddCert c pool)) s)))"

subsection \<open>AddCertificateKeyPair, AddCertificate\<close>

fun range_Certificate :: "stdlib \<Rightarrow> bytes list \<Rightarrow> ca_state \<Rightarrow> unit outcome \<times> ca_state" where
  "range_Certificate L [] s = (Returns (), s)"
| "range_Certificate L (certPEM # rest) s =
     (let customCertificate = ParseCertificate L certPEM;
          s1 = (if customCertificate = None
                then log_Warnln ''failed to parse x509 certificate'' s else s);
          s2 = set_trustCerts (trustCerts s1 @ [customCertificate]) s1
      in and_then (globalCertPool_AddCert customCertificate s2)
           (\<lambda>_ s3. range_Certificate L rest s3))"

definition AddCertificateKeyPair ::
  "stdlib \<Rightarrow> string \<Rightarrow> string \<Rightarrow> ca_state \<Rightarrow> unit outcome \<times> ca_state" where
  "AddCertificateKeyPair L certificate privateKey s =
     (case ParseCert L certificate privateKey of
        (certKeyPair, err) \<Rightarrow>
          range_Certificate L certKeyPair
            (if err \<noteq> None
             then log_Warnln ''failed to parse certificate and privateKey'' s else s))"

definition AddCertificate ::
  "stdlib \<Rightarrow> string \<Rightarrow> ca_state \<Rightarrow> error option outcome \<times> ca_state" where
  "AddCertificate L certificate s =
     defer_Unlock
       (let s1 = ca_lock s in
        if certificate = [] then (Returns (Some (Errorf ''certificate is empty'')), s1)
        else
          (case pem_Decode L certificate of
             None \<Rightarrow>
               if Fatalln_exits L then (Exits, s1)
               else (Returns (Some (Errorf ''decode certificate failed'')), s1)
           | Some block_Bytes \<Rightarrow>
               (case ParseCertificate L block_Bytes of
                  Some cert \<Rightarrow>
                    and_then
                      (globalCertPool_AddCert (Some cert)
                         (set_trustCerts (trustCerts s1 @ [Some cert]) s1))
                      (\<lambda>_ s2. (Returns None, s2))
                | None \<Rightarrow> (Returns (Some (Errorf ''add certificate failed'')), s1))))"

subsection \<open>initializeCertPool, ResetCertificate, getCertPool\<close>

fun range_trustCerts :: "Certificate option list \<Rightarrow> ca_state \<Rightarrow> unit outcome \<times> ca_state" where
  "range_trustCerts [] s = (Returns (), s)"
| "range_trustCerts (cert # certs) s =
     and_then (globalCertPool_AddCert cert s) (\<lambda>_ s1. range_trustCerts certs s1)"

definition initializeCertPool :: "ca_env \<Rightarrow> stdlib \<Rightarrow> ca_state \<Rightarrow> unit outcome \<times> ca_state" where
  "initializeCertPool E L s =
     (let s1 = (if DisableSystemCa E then set_globalCertPool (Some []) s
                else (case SystemCertPool L of
                        Inr pool \<Rightarrow> set_globalCertPool (Some pool) s
                      | Inl err \<Rightarrow> set_globalCertPool (Some []) (set_globalCertPool None s)))
      in and_then (range_trustCerts (trustCerts s1) s1)
           (\<lambda>_ s2.
              if \<not> DisableEmbedCa E
              then (case globalCertPool s2 of
                      None \<Rightarrow> (Panics ''invalid memory address or nil pointer dereference'', s2)
                    | Some pool \<Rightarrow>
                        (Returns (),
                         set_globalCertPool
                           (Some (fst (AppendCertsFromPEM L (CaCertificates E) pool))) s2))
              else (Returns (), s2)))"

definition ResetCertificate :: "ca_env \<Rightarrow> stdlib \<Rightarrow> ca_state \<Rightarrow> unit outcome \<times> ca_state" where
  "ResetCertificate E L s =
     defer_Unlock (initializeCertPool E L (set_trustCerts [] (ca_lock s)))"

definition getCertPool ::
  "ca_env \<Rightarrow> stdlib \<Rightarrow> ca_state \<Rightarrow> CertPool option outcome \<times> ca_state" where
  "getCertPool E L s =
     (if globalCertPool s = None
      then defer_Unlock
             (let s1 = ca_lock s in
              if globalCertPool s1 \<noteq> None then (Returns (globalCertPool s1), s1)
              else and_then (initializeCertPool E L s1)
                     (\<lambda>_ s2. (Returns (globalCertPool s2), s2)))
      else (Returns (globalCertPool s), s))"

subsection \<open>verifyFingerprint\<close>

definition errNotMatch :: error where
  "errNotMatch = Errorf ''certificate fingerprints do not match''"

type_synonym ca_callback = "bytes list \<Rightarrow> Certificate list list \<Rightarrow> error option"

fun ssl_pining :: "stdlib \<Rightarrow> fingerprint \<Rightarrow> bytes list \<Rightarrow> error option" where
  "ssl_pining L fingerprint [] = Some errNotMatch"
| "ssl_pining L fingerprint (rawCert # rawCerts) =
     (case ParseCertificate L rawCert of
        None \<Rightarrow> ssl_pining L fingerprint rawCerts
      | Some cert \<Rightarrow>
          if fingerprint = Sum256 L (Raw cert) then None
          else ssl_pining L fingerprint rawCerts)"

definition verifyFingerprint :: "stdlib \<Rightarrow> fingerprint \<Rightarrow> ca_callback" where
  "verifyFingerprint L fingerprint = (\<lambda>rawCerts verifiedChains. ssl_pining L fingerprint rawCerts)"

definition ca_convertFingerprint :: "string \<Rightarrow> error + fingerprint" where
  "ca_convertFingerprint fingerprint =
     (case DecodeString (TrimSpace (Replace_colons fingerprint)) of
        Inl err \<Rightarrow> Inl err
      | Inr fpByte \<Rightarrow>
          if length fpByte \<noteq> 32
          then Inl (Errorf ''fingerprint string length error,need sha256 fingerprint'')
          else Inr fpByte)"

subsection \<open>GetTLSConfig\<close>

lemma and_then_cong [fundef_cong]:
  "r = r' \<Longrightarrow> (\<And>x s. r' = (Returns x, s) \<Longrightarrow> f x s = f' x s)
   \<Longrightarrow> and_then r f = and_then r' f'"
  by (auto simp: and_then_def split: prod.splits outcome.splits)

text \<open>\<open>&tls.Config{}\<close>.\<close>

definition Config_zero :: "'cb Config" where
  "Config_zero = \<lparr>RootCAs = None, InsecureSkipVerify = False, VerifyPeerCertificate = None\<rparr>"

text \<open>
  \<open>GetTLSConfig\<close> calls \<open>GetGlobalTLSConfig\<close> when a fingerprint is given, and
  \<open>GetGlobalTLSConfig\<close> calls \<open>GetTLSConfig\<close> without one. The result is the error or
  the configuration; \<open>GetGlobalTLSConfig\<close> drops the error and returns the pointer,
  nil after an error. \<open>RootCAs\<close> holds the contents of the pool at the time of the call.
\<close>

function GetTLSConfig ::
  "ca_env \<Rightarrow> stdlib \<Rightarrow> ca_callback Config option \<Rightarrow> string \<Rightarrow> string \<Rightarrow> string \<Rightarrow> ca_state
   \<Rightarrow> (error + ca_callback Config) outcome \<times> ca_state"
and GetGlobalTLSConfig ::
  "ca_env \<Rightarrow> stdlib \<Rightarrow> ca_callback Config option \<Rightarrow> ca_state
   \<Rightarrow> ca_callback Config option outcome \<times> ca_state"
where
  "GetTLSConfig E L tlsConfig fingerprint customCA customCAString s =
     (let tlsConfig1 = (case tlsConfig of None \<Rightarrow> Config_zero | Some c \<Rightarrow> c) in
      case (if length customCA > 0 then ReadFile L customCA
            else if customCAString \<noteq> [] then Inr customCAString else Inr [])
      of
        Inl err \<Rightarrow> (Returns (Inl (Errorf ''load ca error'')), s)
      | Inr certificate \<Rightarrow>
          and_then
            (if length certificate > 0
             then (case AppendCertsFromPEM L certificate [] of
                     (certPool, ok) \<Rightarrow>
                       if \<not> ok then (Returns (Inl (Errorf ''failed to parse certificate'')), s)
                       else (Returns (Inr (tlsConfig1\<lparr>RootCAs := Some certPool\<rparr>)), s))
             else and_then (getCertPool E L s)
                    (\<lambda>pool s1. (Returns (Inr (tlsConfig1\<lparr>RootCAs := pool\<rparr>)), s1)))
            (\<lambda>r s1.
               case r of
                 Inl err \<Rightarrow> (Returns (Inl err), s1)
               | Inr tlsConfig2 \<Rightarrow>
                   if length fingerprint > 0
                   then (case ca_convertFingerprint fingerprint of
                           Inl err \<Rightarrow> (Returns (Inl err), s1)
                         | Inr fingerprintBytes \<Rightarrow>
                             and_then (GetGlobalTLSConfig E L (Some tlsConfig2) s1)
                               (\<lambda>tlsConfig3 s2.
                                  case tlsConfig3 of
                                    None \<Rightarrow>
                                      (Panics ''invalid memory address or nil pointer dereference'', s2)
                                  | Some c \<Rightarrow>
                                      (Returns
                                         (Inr (c\<lparr>VerifyPeerCertificate :=
                                                   Some (verifyFingerprint L fingerprintBytes),
                                                 InsecureSkipVerify := True\<rparr>)), s2)))
                   else (Returns (Inr tlsConfig2), s1)))"
| "GetGlobalTLSConfig E L tlsConfig s =
     and_then (GetTLSConfig E L tlsConfig [] [] [] s)
       (\<lambda>r s1. (Returns (case r of Inl err \<Rightarrow> None | Inr c \<Rightarrow> Some c), s1))"
  by pat_completeness auto
termination
  by (relation "measure (\<lambda>x. case x of
            Inl (E, L, tlsConfig, fingerprint, customCA, customCAString, s) \<Rightarrow>
              2 * length fingerprint
          | Inr (E, L, tlsConfig, s) \<Rightarrow> 1)")
     (auto simp: neq_Nil_conv)

declare GetTLSConfig.simps [simp del] GetGlobalTLSConfig.simps [simp del]

definition ca_GetSpecifiedFingerprintTLSConfig ::
  "ca_env \<Rightarrow> stdlib \<Rightarrow> ca_callback Config option \<Rightarrow> string \<Rightarrow> ca_state
   \<Rightarrow> (error + ca_callback Config) outcome \<times> ca_state" where
  "ca_GetSpecifiedFingerprintTLSConfig E L tlsConfig fingerprint s =
     GetTLSConfig E L tlsConfig fingerprint [] [] s"

text \<open>The configuration that a call returned, if it returned one.\<close>

definition returned_Config :: "(error + 'c) outcome \<times> 's \<Rightarrow> 'c option" where
  "returned_Config r = (case fst r of Returns (Inr c) \<Rightarrow> Some c | _ \<Rightarrow> None)"

section \<open>The notions of the specification\<close>

text \<open>
  What the specification says about one presented certificate: it parses; it parses and
  chain validation accepts it; it parses and its SHA-256 digest is in the pin set.
\<close>

definition parses :: "stdlib \<Rightarrow> bytes \<Rightarrow> bool" where
  "parses L rawCert = (ParseCertificate L rawCert \<noteq> None)"

definition validates :: "stdlib \<Rightarrow> bytes \<Rightarrow> bool" where
  "validates L rawCert =
     (case ParseCertificate L rawCert of None \<Rightarrow> False | Some cert \<Rightarrow> Verify L cert = None)"

definition pinned :: "stdlib \<Rightarrow> fingerprint list \<Rightarrow> bytes \<Rightarrow> bool" where
  "pinned L pinSet rawCert =
     (case ParseCertificate L rawCert of
        None \<Rightarrow> False
      | Some cert \<Rightarrow> Sum256 L (Raw cert) \<in> set pinSet)"

text \<open>
  \<open>Matches(chain, pinSet)\<close> of the specification: some certificate of the presented
  chain has a digest that is in the pin set.
\<close>

definition Matches :: "stdlib \<Rightarrow> bytes list \<Rightarrow> fingerprint list \<Rightarrow> bool" where
  "Matches L chain pinSet = list_ex (pinned L pinSet) chain"

text \<open>The skip flag that the caller's configuration had, false for a nil configuration.\<close>

definition caller_skip :: "'cb Config option \<Rightarrow> bool" where
  "caller_skip tlsConfig = (case tlsConfig of None \<Rightarrow> False | Some c \<Rightarrow> InsecureSkipVerify c)"

text \<open>
  The roots that the two disable flags leave: those of the operating system (none
  when disabled, none when they cannot be read) and those of the embedded bundle.
\<close>

definition OS_roots :: "ca_env \<Rightarrow> stdlib \<Rightarrow> CertPool" where
  "OS_roots E L =
     (if DisableSystemCa E then []
      else (case SystemCertPool L of Inr pool \<Rightarrow> pool | Inl err \<Rightarrow> []))"

definition embedded_roots :: "ca_env \<Rightarrow> stdlib \<Rightarrow> CertPool" where
  "embedded_roots E L = (if DisableEmbedCa E then [] else certsFromPEM L (CaCertificates E))"

text \<open>
  Chain validation of \<open>crypto/x509\<close> against a pool of roots: a presented chain is
  valid exactly when some root of the pool anchors it.
\<close>

definition VerifyChain :: "stdlib \<Rightarrow> CertPool \<Rightarrow> bytes list \<Rightarrow> bool" where
  "VerifyChain L roots rawCerts = list_ex (\<lambda>root. anchors L root rawCerts) roots"

text \<open>A sequence of \<open>AddCertificate\<close> calls, whatever each of them answers.\<close>

fun AddCertificates :: "stdlib \<Rightarrow> string list \<Rightarrow> ca_state \<Rightarrow> ca_state" where
  "AddCertificates L [] s = s"
| "AddCertificates L (certificate # rest) s =
     AddCertificates L rest (snd (AddCertificate L certificate s))"

text \<open>
  The lock discipline on a trace: every write happens while the mutex is held.
  \<open>held\<close> tells whether it is held before the first event.
\<close>

fun guarded :: "bool \<Rightarrow> event list \<Rightarrow> bool" where
  "guarded held [] = True"
| "guarded held (Lock # es) = guarded True es"
| "guarded held (Unlock # es) = guarded False es"
| "guarded held (Write v # es) = (held \<and> guarded held es)"
| "guarded held (Warnln msg # es) = guarded held es"

text \<open>A state with an empty trace, to look at the events of one call.\<close>

definition fresh :: "ca_state \<Rightarrow> ca_state" where
  "fresh s = s\<lparr>ca_trace := []\<rparr>"

text \<open>
  \<open>Parse\<close> of the specification: colon separators and surrounding white space are
  removed; what is left must be a hexadecimal string, in any letter case, that
  decodes to exactly 32 bytes, which are 64 digits; the result is these bytes.
\<close>

definition is_hex_digit :: "char \<Rightarrow> bool" where
  "is_hex_digit c = (c \<in> set ''0123456789abcdefABCDEF'')"

definition hex_value :: "char \<Rightarrow> nat" where
  "hex_value c =
     (if c \<in> set ''0123456789'' then of_char c - of_char CHR ''0''
      else if c \<in> set ''abcdef'' then of_char c - of_char CHR ''a'' + 10
      else of_char c - of_char CHR ''A'' + 10)"

fun hex_bytes :: "string \<Rightarrow> bytes" where
  "hex_bytes (hi # lo # rest) = of_nat (16 * hex_value hi + hex_value lo) # hex_bytes rest"
| "hex_bytes [c] = []"
| "hex_bytes [] = []"

definition spec_Parse :: "string \<Rightarrow> fingerprint option" where
  "spec_Parse fingerprint =
     (let digits = TrimSpace (Replace_colons fingerprint)
      in if list_all is_hex_digit digits \<and> length digits = 64
         then Some (hex_bytes digits) else None)"

text \<open>Lower case of an ASCII letter, to compare two spellings of a digest.\<close>

definition ToLower :: "char \<Rightarrow> char" where
  "ToLower c =
     (case map_of (zip ''ABCDEFGHIJKLMNOPQRSTUVWXYZ'' ''abcdefghijklmnopqrstuvwxyz'') c of
        None \<Rightarrow> c
      | Some l \<Rightarrow> l)"

section \<open>Concrete inputs\<close>

text \<open>
  A small instance of the library functions, on which the model can be run: a
  certificate is any DER string that is not empty; it validates when its first byte
  is 1; the digest of data is its first 32 bytes, padded with zeros; PEM data starts
  with five dashes; the operating system has one root.
\<close>

definition toy :: stdlib where
  "toy = \<lparr>ParseCertificate = (\<lambda>der. if der = [] then None else Some \<lparr>Raw = der\<rparr>),
          Verify = (\<lambda>cert. if hd (Raw cert) = 1 then None
                           else Some (X509Error ''certificate signed by unknown authority'')),
          Sum256 = (\<lambda>data. take 32 (data @ replicate 32 0)),
          pem_Decode = (\<lambda>text. if take 5 text = ''-----''
                               then Some (map of_char (drop 5 text)) else None),
          certsFromPEM = (\<lambda>text. if take 5 text = ''-----''
                                 then [\<lparr>Raw = map of_char (drop 5 text)\<rparr>] else []),
          SystemCertPool = Inr [\<lparr>Raw = [1]\<rparr>],
          ReadFile = (\<lambda>name. Inl (Errorf ''no such file or directory'')),
          ParseCert = (\<lambda>certificate privateKey. ([[1], [], [2]], None)),
          anchors = (\<lambda>root rawCerts. Raw root \<in> set rawCerts),
          Fatalln_exits = True\<rparr>"

definition fp_text :: string where
  "fp_text = ''00112233445566778899aabbccddeeff00112233445566778899AABBCCDDEEFF''"

definition fp_bytes :: fingerprint where
  "fp_bytes =
     [0x00, 0x11, 0x22, 0x33, 0x44, 0x55, 0x66, 0x77,
      0x88, 0x99, 0xaa, 0xbb, 0xcc, 0xdd, 0xee, 0xff,
      0x00, 0x11, 0x22, 0x33, 0x44, 0x55, 0x66, 0x77,
      0x88, 0x99, 0xaa, 0xbb, 0xcc, 0xdd, 0xee, 0xff]"

text \<open>
  An environment with both flags set, and the state of package ca after the pool was
  first built in it.
\<close>

definition both_disabled :: ca_env where
  "both_disabled = \<lparr>DisableEmbedCa = True, DisableSystemCa = True, CaCertificates = []\<rparr>"

definition empty_pool_state :: ca_state where
  "empty_pool_state =
     \<lparr>trustCerts = [], globalCertPool = Some [],
      ca_trace = [Lock, Write ''globalCertPool'', Unlock]\<rparr>"

text \<open>
  An environment with both sources of roots enabled, and a state in which two custom
  certificates were added after the pool was built.
\<close>

definition both_enabled :: ca_env where
  "both_enabled = \<lparr>DisableEmbedCa = False, DisableSystemCa = False, CaCertificates = ''-----B''\<rparr>"

definition custom_state :: ca_state where
  "custom_state = AddCertificates toy [''-----A'', ''-----C''] empty_pool_state"

text \<open>The digest of \<open>fp_text\<close> written with colons and a trailing space.\<close>

definition fp_colons :: string where
  "fp_colons =
     ''00:11:22:33:44:55:66:77:88:99:aa:bb:cc:dd:ee:ff:00:11:22:33:44:55:66:77:88:99:AA:BB:CC:DD:EE:FF ''"

text \<open>A pin set of two fingerprints.\<close>

definition pins :: "fingerprint list" where
  "pins = [replicate 32 7, fp_bytes]"

definition skip_config :: "tls_callback Config" where
  "skip_config = \<lparr>RootCAs = None, InsecureSkipVerify = True, VerifyPeerCertificate = None\<rparr>"

section \<open>Properties of package tls\<close>

lemma tls_convertFingerprint_fp_text: "tls_convertFingerprint fp_text = Inr fp_bytes"
  by code_simp

text \<open>
  C10. In package tls, when the caller's configuration already has
  \<open>InsecureSkipVerify\<close> set, the callback that \<open>GetSpecifiedFingerprintTLSConfig\<close> and
  \<open>GetGlobalFingerprintTLSConfig\<close> install returns nil for every presented chain,
  whatever the package state at the handshake: neither the chain nor any fingerprint
  is looked at.
\<close>

theorem skip_flag_accepts_every_chain:
  assumes "InsecureSkipVerify c"
  shows "(tls_GetSpecifiedFingerprintTLSConfig L (Some c) fingerprint = Inr c' \<longrightarrow>
            (\<exists>cb. VerifyPeerCertificate c' = Some cb \<and> cb s rawCerts verifiedChains = None))
         \<and> (\<exists>cb. VerifyPeerCertificate (GetGlobalFingerprintTLSConfig L (Some c) s0) = Some cb
                 \<and> cb s rawCerts verifiedChains = None)"
  using assms
  by (auto simp: tls_GetSpecifiedFingerprintTLSConfig_def GetGlobalFingerprintTLSConfig_def
      verifyPeerCertificateAndFingerprints_def Let_def split: sum.splits)

theorem skip_flag_accepts_every_chain_witness:
  "InsecureSkipVerify skip_config
   \<and> tls_GetSpecifiedFingerprintTLSConfig toy (Some skip_config) fp_text =
       Inr (skip_config\<lparr>VerifyPeerCertificate :=
              Some (verifyPeerCertificateAndFingerprints toy (Addr_literal [fp_bytes]) True)\<rparr>)
   \<and> (\<exists>cb. VerifyPeerCertificate
               (skip_config\<lparr>VerifyPeerCertificate :=
                  Some (verifyPeerCertificateAndFingerprints toy (Addr_literal [fp_bytes]) True)\<rparr>)
             = Some cb
            \<and> cb tls_init [[2]] [] = None)
   \<and> (\<exists>cb. VerifyPeerCertificate (GetGlobalFingerprintTLSConfig toy (Some skip_config) tls_init)
             = Some cb
            \<and> cb tls_init [[2]] [] = None)"
proof -
  have skip: "InsecureSkipVerify skip_config"
    by (simp add: skip_config_def)
  have cfg: "tls_GetSpecifiedFingerprintTLSConfig toy (Some skip_config) fp_text =
       Inr (skip_config\<lparr>VerifyPeerCertificate :=
              Some (verifyPeerCertificateAndFingerprints toy (Addr_literal [fp_bytes]) True)\<rparr>)"
    by (simp add: tls_GetSpecifiedFingerprintTLSConfig_def tls_convertFingerprint_fp_text
        skip_config_def)
  show ?thesis
    using skip cfg
      skip_flag_accepts_every_chain [OF skip, of toy fp_text
        "skip_config\<lparr>VerifyPeerCertificate :=
           Some (verifyPeerCertificateAndFingerprints toy (Addr_literal [fp_bytes]) True)\<rparr>"
        tls_init "[[2]]" "[]" tls_init]
    by simp
qed

subsection \<open>The callback of package tls\<close>

lemma range_fingerprints_iff: "range_fingerprints digest fps = (digest \<in> set fps)"
  by (induction fps) auto

text \<open>
  When the callback returns nil: some certificate validates or is pinned, or no error
  was recorded (none before the loop, and no certificate of the chain parses).
\<close>

lemma range_rawCerts_None_iff:
  "(range_rawCerts L fps preErr rawCerts = None) =
     (list_ex (\<lambda>rawCert. validates L rawCert \<or> pinned L fps rawCert) rawCerts
      \<or> (preErr = None \<and> list_all (\<lambda>rawCert. \<not> parses L rawCert) rawCerts))"
proof (induction rawCerts arbitrary: preErr)
  case Nil
  then show ?case by simp
next
  case (Cons rawCert rawCerts)
  show ?case
  proof (cases "ParseCertificate L rawCert")
    case None
    then show ?thesis
      using Cons.IH [of preErr] by (simp add: validates_def pinned_def parses_def)
  next
    case (Some cert)
    then show ?thesis
      using Cons.IH [of "Verify L cert"]
      by (cases "Verify L cert")
         (auto simp: validates_def pinned_def parses_def range_fingerprints_iff)
  qed
qed

text \<open>
  C1. The claim says that the callback of the fingerprint configurations, with the skip
  flag false, returns an error whenever no certificate of the chain parses and then
  validates or matches a pin, in particular for an empty chain and for a chain of
  unparseable certificates. The callback of package tls does the opposite there: when
  no certificate of the chain parses, \<open>preErr\<close> is still nil at the end of the loop and
  the callback returns nil, which accepts the chain.
\<close>

theorem unparseable_chain_is_accepted:
  "list_all (\<lambda>rawCert. \<not> parses L rawCert) rawCerts \<Longrightarrow>
   verifyPeerCertificateAndFingerprints L fingerprints False s rawCerts verifiedChains = None"
  by (simp add: verifyPeerCertificateAndFingerprints_def range_rawCerts_None_iff)

theorem unparseable_chain_is_accepted_witness:
  "list_all (\<lambda>rawCert. \<not> parses toy rawCert) [[], []]
   \<and> verifyPeerCertificateAndFingerprints toy (Addr_literal [fp_bytes]) False tls_init
        [[], []] [] = None
   \<and> verifyPeerCertificateAndFingerprints toy (Addr_literal [fp_bytes]) False tls_init
        [] [] = None
   \<and> verifyFingerprint toy fp_bytes [[], []] [] = Some errNotMatch"
proof -
  have "list_all (\<lambda>rawCert. \<not> parses toy rawCert) [[], []]"
    by (simp add: parses_def toy_def)
  then show ?thesis
    using unparseable_chain_is_accepted [of toy "[[], []]" "Addr_literal [fp_bytes]" tls_init "[]"]
      unparseable_chain_is_accepted [of toy "[]" "Addr_literal [fp_bytes]" tls_init "[]"]
    by (simp add: verifyFingerprint_def toy_def)
qed

section \<open>Properties of package ca\<close>

subsection \<open>The pin-only callback\<close>

lemma ssl_pining_None_iff:
  "(ssl_pining L fp rawCerts = None) = list_ex (pinned L [fp]) rawCerts"
  by (induction rawCerts) (auto simp: pinned_def split: option.splits)

lemma ssl_pining_cases:
  "ssl_pining L fp rawCerts = None \<or> ssl_pining L fp rawCerts = Some errNotMatch"
  by (induction rawCerts) (auto split: option.splits)

lemma pinned_iff:
  "pinned L pinSet rawCert =
     (\<exists>cert. ParseCertificate L rawCert = Some cert \<and> Sum256 L (Raw cert) \<in> set pinSet)"
  by (simp add: pinned_def split: option.splits)

subsection \<open>Pin matching in the two callbacks\<close>

lemma list_ex_disj: "list_ex (\<lambda>x. P x \<or> Q x) xs = (list_ex P xs \<or> list_ex Q xs)"
  by (induction xs) auto

lemma Matches_iff:
  "Matches L chain pinSet =
     (\<exists>rawCert\<in>set chain. \<exists>cert.
         ParseCertificate L rawCert = Some cert \<and> Sum256 L (Raw cert) \<in> set pinSet)"
  by (simp add: Matches_def list_ex_iff pinned_iff)

lemma tls_callback_None_iff:
  "(verifyPeerCertificateAndFingerprints L fingerprints skip s rawCerts verifiedChains = None) =
     (skip \<or> list_ex (validates L) rawCerts \<or> Matches L rawCerts (deref s fingerprints)
      \<or> list_all (\<lambda>rawCert. \<not> parses L rawCert) rawCerts)"
  by (simp add: verifyPeerCertificateAndFingerprints_def range_rawCerts_None_iff list_ex_disj
      Matches_def)

lemma unparseable_iff:
  "list_all (\<lambda>rawCert. \<not> parses L rawCert) rawCerts = (\<not> list_ex (parses L) rawCerts)"
  by (induction rawCerts) auto

lemma mset_list_ex: "mset xs = mset ys \<Longrightarrow> list_ex P xs = list_ex P ys"
  by (auto simp: list_ex_iff dest: mset_eq_setD)

text \<open>
  C4. Pin matching looks at the whole presented chain, not only at the leaf, for every
  pin set and every chain.
  \<^item> The pin-only callback of package ca returns nil exactly when some certificate of
    the chain parses and has the pinned SHA-256 digest, wherever it stands.
  \<^item> The callback of package tls returns nil whenever some certificate of the chain
    parses and has a digest in the pin set it was given (the list behind its pointer
    at the time of the handshake), wherever the certificate stands; and where the pins
    decide, that is when some certificate parses and none passes chain validation, it
    returns nil exactly in that case.
  \<^item> Permuting the chain changes neither the result of the pin-only callback nor
    whether the callback of package tls accepts.
\<close>

theorem pin_match_whole_chain:
  "((verifyFingerprint L fp rawCerts verifiedChains = None) =
      (\<exists>rawCert\<in>set rawCerts. \<exists>cert.
          ParseCertificate L rawCert = Some cert \<and> Sum256 L (Raw cert) = fp))
   \<and> ((\<exists>rawCert\<in>set rawCerts. \<exists>cert.
          ParseCertificate L rawCert = Some cert
          \<and> Sum256 L (Raw cert) \<in> set (deref s fingerprints))
       \<longrightarrow> verifyPeerCertificateAndFingerprints L fingerprints skip s rawCerts verifiedChains
            = None)
   \<and> (list_ex (parses L) rawCerts \<and> \<not> list_ex (validates L) rawCerts \<longrightarrow>
        (verifyPeerCertificateAndFingerprints L fingerprints False s rawCerts verifiedChains
           = None) =
        (\<exists>rawCert\<in>set rawCerts. \<exists>cert.
            ParseCertificate L rawCert = Some cert
            \<and> Sum256 L (Raw cert) \<in> set (deref s fingerprints)))
   \<and> (mset rawCerts' = mset rawCerts \<longrightarrow>
        verifyFingerprint L fp rawCerts' verifiedChains' =
        verifyFingerprint L fp rawCerts verifiedChains
        \<and> (verifyPeerCertificateAndFingerprints L fingerprints skip s rawCerts' verifiedChains'
              = None) =
          (verifyPeerCertificateAndFingerprints L fingerprints skip s rawCerts verifiedChains
              = None))"
proof (intro conjI impI)
  show "(verifyFingerprint L fp rawCerts verifiedChains = None) =
      (\<exists>rawCert\<in>set rawCerts. \<exists>cert.
          ParseCertificate L rawCert = Some cert \<and> Sum256 L (Raw cert) = fp)"
    by (auto simp: verifyFingerprint_def ssl_pining_None_iff list_ex_iff pinned_iff)
next
  assume "\<exists>rawCert\<in>set rawCerts. \<exists>cert.
          ParseCertificate L rawCert = Some cert
          \<and> Sum256 L (Raw cert) \<in> set (deref s fingerprints)"
  then have "Matches L rawCerts (deref s fingerprints)"
    by (simp add: Matches_iff)
  then show "verifyPeerCertificateAndFingerprints L fingerprints skip s rawCerts verifiedChains
      = None"
    by (simp add: tls_callback_None_iff)
next
  assume "list_ex (parses L) rawCerts \<and> \<not> list_ex (validates L) rawCerts"
  then show "(verifyPeerCertificateAndFingerprints L fingerprints False s rawCerts verifiedChains
           = None) =
        (\<exists>rawCert\<in>set rawCerts. \<exists>cert.
            ParseCertificate L rawCert = Some cert
            \<and> Sum256 L (Raw cert) \<in> set (deref s fingerprints))"
    by (simp add: tls_callback_None_iff unparseable_iff Matches_iff)
next
  assume "mset rawCerts' = mset rawCerts"
  then have "set rawCerts' = set rawCerts"
    by (rule mset_eq_setD)
  then have "(ssl_pining L fp rawCerts' = None) = (ssl_pining L fp rawCerts = None)"
    by (simp add: ssl_pining_None_iff list_ex_iff)
  then show "verifyFingerprint L fp rawCerts' verifiedChains' =
        verifyFingerprint L fp rawCerts verifiedChains"
    using ssl_pining_cases [of L fp rawCerts] ssl_pining_cases [of L fp rawCerts']
    by (auto simp: verifyFingerprint_def)
next
  assume perm: "mset rawCerts' = mset rawCerts"
  show "(verifyPeerCertificateAndFingerprints L fingerprints skip s rawCerts' verifiedChains'
              = None) =
          (verifyPeerCertificateAndFingerprints L fingerprints skip s rawCerts verifiedChains
              = None)"
    by (simp add: tls_callback_None_iff unparseable_iff Matches_def mset_list_ex [OF perm])
qed

theorem pin_match_whole_chain_witness:
  "mset [fp_bytes, [2]] = mset [[2], fp_bytes]
   \<and> (list_ex (parses toy) [[2], fp_bytes] \<and> \<not> list_ex (validates toy) [[2], fp_bytes])
   \<and> (\<exists>rawCert\<in>set [[2], fp_bytes]. \<exists>cert.
          ParseCertificate toy rawCert = Some cert
          \<and> Sum256 toy (Raw cert) \<in> set (deref (tls_init\<lparr>globalFingerprints := pins\<rparr>)
                                              Addr_globalFingerprints))
   \<and> verifyPeerCertificateAndFingerprints toy Addr_globalFingerprints False
        (tls_init\<lparr>globalFingerprints := pins\<rparr>) [[2], fp_bytes] [] = None
   \<and> verifyPeerCertificateAndFingerprints toy Addr_globalFingerprints False
        (tls_init\<lparr>globalFingerprints := pins\<rparr>) [fp_bytes, [2]] [] = None
   \<and> verifyPeerCertificateAndFingerprints toy Addr_globalFingerprints False
        tls_init [[2], fp_bytes] [] \<noteq> None
   \<and> verifyFingerprint toy fp_bytes [[2], fp_bytes] [] = None
   \<and> verifyFingerprint toy fp_bytes [fp_bytes, [2]] [] = None"
proof -
  let ?s = "tls_init\<lparr>globalFingerprints := pins\<rparr>"
  note at_pins = pin_match_whole_chain [of toy fp_bytes "[[2], fp_bytes]" "[]" ?s
      Addr_globalFingerprints False "[fp_bytes, [2]]" "[]"]
  note no_pins = pin_match_whole_chain [of toy fp_bytes "[[2], fp_bytes]" "[]" tls_init
      Addr_globalFingerprints False "[fp_bytes, [2]]" "[]"]
  have perm: "mset [fp_bytes, [2]] = mset [[2::byte], fp_bytes]"
    by simp
  have parse: "list_ex (parses toy) [[2], fp_bytes] \<and> \<not> list_ex (validates toy) [[2], fp_bytes]"
    by (simp add: parses_def validates_def toy_def fp_bytes_def)
  have pin: "\<exists>rawCert\<in>set [[2], fp_bytes]. \<exists>cert.
          ParseCertificate toy rawCert = Some cert
          \<and> Sum256 toy (Raw cert) \<in> set (deref ?s Addr_globalFingerprints)"
    by (simp add: toy_def pins_def fp_bytes_def)
  have nopin: "\<not> (\<exists>rawCert\<in>set [[2], fp_bytes]. \<exists>cert.
          ParseCertificate toy rawCert = Some cert
          \<and> Sum256 toy (Raw cert) \<in> set (deref tls_init Addr_globalFingerprints))"
    by (simp add: toy_def tls_init_def)
  have ca_pin: "\<exists>rawCert\<in>set [[2], fp_bytes]. \<exists>cert.
          ParseCertificate toy rawCert = Some cert \<and> Sum256 toy (Raw cert) = fp_bytes"
    by (simp add: toy_def fp_bytes_def)
  have tls1: "verifyPeerCertificateAndFingerprints toy Addr_globalFingerprints False
        ?s [[2], fp_bytes] [] = None"
    using at_pins pin by blast
  have tls2: "verifyPeerCertificateAndFingerprints toy Addr_globalFingerprints False
        ?s [fp_bytes, [2]] [] = None"
    using at_pins perm tls1 by blast
  have tls3: "verifyPeerCertificateAndFingerprints toy Addr_globalFingerprints False
        tls_init [[2], fp_bytes] [] \<noteq> None"
    using no_pins parse nopin by blast
  have ca1: "verifyFingerprint toy fp_bytes [[2], fp_bytes] [] = None"
    using at_pins ca_pin by blast
  have ca2: "verifyFingerprint toy fp_bytes [fp_bytes, [2]] [] = None"
    using at_pins perm ca1 by metis
  from perm parse pin tls1 tls2 tls3 ca1 ca2 show ?thesis
    by (intro conjI) blast+
qed

subsection \<open>Configurations with an explicit fingerprint\<close>

lemma GetTLSConfig_fingerprint:
  assumes "GetTLSConfig E L tlsConfig fingerprint customCA customCAString s = (Returns (Inr c), s')"
    and "fingerprint \<noteq> []"
  shows "\<exists>fp. ca_convertFingerprint fingerprint = Inr fp
           \<and> VerifyPeerCertificate c = Some (verifyFingerprint L fp)
           \<and> InsecureSkipVerify c"
  using assms
  by (subst (asm) GetTLSConfig.simps)
     (auto simp: and_then_def Let_def
      split: prod.splits outcome.splits sum.splits if_splits option.splits)

lemma ssl_pining_Matches: "(ssl_pining L fp rawCerts = None) = Matches L rawCerts [fp]"
  by (simp add: ssl_pining_None_iff Matches_def)

text \<open>
  C2. The claim says that with an explicit fingerprint the trust decision is exactly
  the pin match, chain validation being bypassed. The counterexample below shows that
  this fails for \<open>GetSpecifiedFingerprintTLSConfig\<close> of package tls, whose callback
  first runs chain validation. As amended:
  \<^item> in package ca, a configuration returned by \<open>GetTLSConfig\<close> for a fingerprint that
    is not empty (\<open>GetSpecifiedFingerprintTLSConfig\<close> is the same call without a custom
    CA) has \<open>InsecureSkipVerify\<close> true and the pin-only callback for the parsed
    fingerprint, which returns nil exactly when \<open>Matches(chain, {fingerprint})\<close>;
  \<^item> in package tls, the returned configuration has \<open>InsecureSkipVerify\<close> true as
    well, but its callback is the one with the chain validation: for a chain in which
    some certificate parses it returns nil exactly when the caller's configuration had
    the skip flag set, or some certificate passes chain validation, or
    \<open>Matches(chain, {fingerprint})\<close>.
\<close>

theorem explicit_fingerprint_decision:
  "(fingerprint \<noteq> [] \<and>
    returned_Config (GetTLSConfig E L tlsConfig fingerprint customCA customCAString s) = Some c
    \<longrightarrow> InsecureSkipVerify c
        \<and> (\<exists>fp. ca_convertFingerprint fingerprint = Inr fp
                \<and> VerifyPeerCertificate c = Some (verifyFingerprint L fp)
                \<and> (verifyFingerprint L fp rawCerts verifiedChains = None) =
                    Matches L rawCerts [fp]))
   \<and> (tls_GetSpecifiedFingerprintTLSConfig L tlsConfig' fingerprint' = Inr c'
      \<longrightarrow> InsecureSkipVerify c'
          \<and> (\<exists>fp. tls_convertFingerprint fingerprint' = Inr fp
                  \<and> VerifyPeerCertificate c' =
                      Some (verifyPeerCertificateAndFingerprints L (Addr_literal [fp])
                              (caller_skip tlsConfig'))
                  \<and> (list_ex (parses L) rawCerts' \<longrightarrow>
                       (verifyPeerCertificateAndFingerprints L (Addr_literal [fp])
                          (caller_skip tlsConfig') s' rawCerts' verifiedChains' = None) =
                       (caller_skip tlsConfig' \<or> list_ex (validates L) rawCerts'
                        \<or> Matches L rawCerts' [fp]))))"
proof (intro conjI impI)
  assume h: "fingerprint \<noteq> [] \<and>
    returned_Config (GetTLSConfig E L tlsConfig fingerprint customCA customCAString s) = Some c"
  then obtain s1 where
    "GetTLSConfig E L tlsConfig fingerprint customCA customCAString s = (Returns (Inr c), s1)"
    by (cases "GetTLSConfig E L tlsConfig fingerprint customCA customCAString s")
       (auto simp: returned_Config_def split: outcome.splits sum.splits)
  with h obtain fp where fp: "ca_convertFingerprint fingerprint = Inr fp"
    "VerifyPeerCertificate c = Some (verifyFingerprint L fp)" "InsecureSkipVerify c"
    using GetTLSConfig_fingerprint by blast
  show "InsecureSkipVerify c" by (rule fp(3))
  have "(verifyFingerprint L fp rawCerts verifiedChains = None) = Matches L rawCerts [fp]"
    by (simp add: verifyFingerprint_def ssl_pining_Matches)
  with fp(1,2) show "\<exists>fp. ca_convertFingerprint fingerprint = Inr fp
                \<and> VerifyPeerCertificate c = Some (verifyFingerprint L fp)
                \<and> (verifyFingerprint L fp rawCerts verifiedChains = None) =
                    Matches L rawCerts [fp]"
    by (intro exI [of _ fp] conjI)
next
  assume h: "tls_GetSpecifiedFingerprintTLSConfig L tlsConfig' fingerprint' = Inr c'"
  then obtain fp where fp: "tls_convertFingerprint fingerprint' = Inr fp"
    by (cases "tls_convertFingerprint fingerprint'")
       (auto simp: tls_GetSpecifiedFingerprintTLSConfig_def)
  with h have c': "InsecureSkipVerify c'"
    "VerifyPeerCertificate c' =
       Some (verifyPeerCertificateAndFingerprints L (Addr_literal [fp]) (caller_skip tlsConfig'))"
    by (auto simp: tls_GetSpecifiedFingerprintTLSConfig_def caller_skip_def split: option.splits)
  show "InsecureSkipVerify c'" by (rule c'(1))
  have dec: "list_ex (parses L) rawCerts' \<longrightarrow>
       (verifyPeerCertificateAndFingerprints L (Addr_literal [fp])
          (caller_skip tlsConfig') s' rawCerts' verifiedChains' = None) =
       (caller_skip tlsConfig' \<or> list_ex (validates L) rawCerts' \<or> Matches L rawCerts' [fp])"
    by (simp add: tls_callback_None_iff unparseable_iff)
  from fp c'(2) dec show "\<exists>fp. tls_convertFingerprint fingerprint' = Inr fp
                  \<and> VerifyPeerCertificate c' =
                      Some (verifyPeerCertificateAndFingerprints L (Addr_literal [fp])
                              (caller_skip tlsConfig'))
                  \<and> (list_ex (parses L) rawCerts' \<longrightarrow>
                       (verifyPeerCertificateAndFingerprints L (Addr_literal [fp])
                          (caller_skip tlsConfig') s' rawCerts' verifiedChains' = None) =
                       (caller_skip tlsConfig' \<or> list_ex (validates L) rawCerts'
                        \<or> Matches L rawCerts' [fp]))"
    by (intro exI [of _ fp] conjI)
qed

lemma ca_convertFingerprint_fp_text: "ca_convertFingerprint fp_text = Inr fp_bytes"
  by code_simp

lemma fp_text_not_empty: "fp_text \<noteq> []"
  by (simp add: fp_text_def)

lemma getCertPool_both_disabled:
  "getCertPool both_disabled toy ca_init = (Returns (Some []), empty_pool_state)"
  by (simp add: getCertPool_def both_disabled_def ca_init_def ca_lock_def ca_unlock_def
      defer_Unlock_def initializeCertPool_def and_then_def set_globalCertPool_def
      empty_pool_state_def)

lemma getCertPool_built: "getCertPool E L empty_pool_state = (Returns (Some []), empty_pool_state)"
  by (simp add: getCertPool_def empty_pool_state_def)

lemma GetGlobalTLSConfig_built:
  "GetGlobalTLSConfig E L (Some c) empty_pool_state =
     (Returns (Some (c\<lparr>RootCAs := Some []\<rparr>)), empty_pool_state)"
  by (simp add: GetGlobalTLSConfig.simps GetTLSConfig.simps [of _ _ _ "[]"] and_then_def
      getCertPool_built)

lemma GetTLSConfig_fp_text:
  "GetTLSConfig both_disabled toy None fp_text [] [] ca_init =
     (Returns (Inr \<lparr>RootCAs = Some [], InsecureSkipVerify = True,
                    VerifyPeerCertificate = Some (verifyFingerprint toy fp_bytes)\<rparr>),
      empty_pool_state)"
  by (subst GetTLSConfig.simps)
     (simp add: Let_def getCertPool_both_disabled and_then_def Config_zero_def
        ca_convertFingerprint_fp_text GetGlobalTLSConfig_built fp_text_not_empty)

lemma tls_GetSpecified_fp_text:
  "tls_GetSpecifiedFingerprintTLSConfig toy None fp_text =
     Inr \<lparr>RootCAs = None, InsecureSkipVerify = True,
          VerifyPeerCertificate =
            Some (verifyPeerCertificateAndFingerprints toy (Addr_literal [fp_bytes]) False)\<rparr>"
  by (simp add: tls_GetSpecifiedFingerprintTLSConfig_def tls_convertFingerprint_fp_text)

theorem explicit_fingerprint_counterexample:
  "tls_GetSpecifiedFingerprintTLSConfig toy None fp_text =
     Inr \<lparr>RootCAs = None, InsecureSkipVerify = True,
          VerifyPeerCertificate =
            Some (verifyPeerCertificateAndFingerprints toy (Addr_literal [fp_bytes]) False)\<rparr>
   \<and> verifyPeerCertificateAndFingerprints toy (Addr_literal [fp_bytes]) False tls_init [[1]] []
       = None
   \<and> \<not> Matches toy [[1]] [fp_bytes]"
proof (intro conjI)
  show "tls_GetSpecifiedFingerprintTLSConfig toy None fp_text =
     Inr \<lparr>RootCAs = None, InsecureSkipVerify = True,
          VerifyPeerCertificate =
            Some (verifyPeerCertificateAndFingerprints toy (Addr_literal [fp_bytes]) False)\<rparr>"
    by (rule tls_GetSpecified_fp_text)
  show "verifyPeerCertificateAndFingerprints toy (Addr_literal [fp_bytes]) False tls_init [[1]] []
       = None"
    by (simp add: verifyPeerCertificateAndFingerprints_def toy_def)
  show "\<not> Matches toy [[1]] [fp_bytes]"
    by (simp add: Matches_def pinned_def toy_def fp_bytes_def)
qed

theorem explicit_fingerprint_decision_witness:
  "(fp_text \<noteq> [] \<and>
    returned_Config (GetTLSConfig both_disabled toy None fp_text [] [] ca_init) =
      Some \<lparr>RootCAs = Some [], InsecureSkipVerify = True,
            VerifyPeerCertificate = Some (verifyFingerprint toy fp_bytes)\<rparr>)
   \<and> ca_convertFingerprint fp_text = Inr fp_bytes
   \<and> (verifyFingerprint toy fp_bytes [[2], fp_bytes] [] = None) = Matches toy [[2], fp_bytes] [fp_bytes]
   \<and> Matches toy [[2], fp_bytes] [fp_bytes]
   \<and> tls_GetSpecifiedFingerprintTLSConfig toy None fp_text =
       Inr \<lparr>RootCAs = None, InsecureSkipVerify = True,
            VerifyPeerCertificate =
              Some (verifyPeerCertificateAndFingerprints toy (Addr_literal [fp_bytes]) False)\<rparr>
   \<and> list_ex (parses toy) [[2]]
   \<and> (verifyPeerCertificateAndFingerprints toy (Addr_literal [fp_bytes])
         (caller_skip (None :: tls_callback Config option)) tls_init [[2]] [] = None) =
      (caller_skip (None :: tls_callback Config option) \<or> list_ex (validates toy) [[2]] \<or> Matches toy [[2]] [fp_bytes])
   \<and> verifyPeerCertificateAndFingerprints toy (Addr_literal [fp_bytes])
         (caller_skip (None :: tls_callback Config option)) tls_init [[2]] [] \<noteq> None"
proof -
  let ?c = "\<lparr>RootCAs = Some [], InsecureSkipVerify = True,
            VerifyPeerCertificate = Some (verifyFingerprint toy fp_bytes)\<rparr>"
  let ?c' = "\<lparr>RootCAs = None, InsecureSkipVerify = True,
            VerifyPeerCertificate =
              Some (verifyPeerCertificateAndFingerprints toy (Addr_literal [fp_bytes]) False)\<rparr>"
  note T = explicit_fingerprint_decision [of fp_text both_disabled toy None "[]" "[]" ca_init ?c
      "[[2], fp_bytes]" "[]" None fp_text ?c' "[[2]]" tls_init "[]"]
  have h1: "fp_text \<noteq> [] \<and>
    returned_Config (GetTLSConfig both_disabled toy None fp_text [] [] ca_init) = Some ?c"
    by (simp add: returned_Config_def GetTLSConfig_fp_text fp_text_not_empty)
  have h2: "tls_GetSpecifiedFingerprintTLSConfig toy None fp_text = Inr ?c'"
    by (rule tls_GetSpecified_fp_text)
  have h3: "list_ex (parses toy) [[2]]"
    by (simp add: parses_def toy_def)
  have m: "Matches toy [[2], fp_bytes] [fp_bytes]"
    by (simp add: Matches_def pinned_def toy_def fp_bytes_def)
  have n: "\<not> (caller_skip (None :: tls_callback Config option) \<or> list_ex (validates toy) [[2]] \<or> Matches toy [[2]] [fp_bytes])"
    by (simp add: caller_skip_def validates_def Matches_def pinned_def toy_def fp_bytes_def)
  have ca: "(verifyFingerprint toy fp_bytes [[2], fp_bytes] [] = None) =
      Matches toy [[2], fp_bytes] [fp_bytes]"
  proof -
    from conjunct2 [OF mp [OF conjunct1 [OF T] h1]] show ?thesis
    proof (elim exE conjE)
      fix fp
      assume a: "ca_convertFingerprint fp_text = Inr fp"
        and b: "(verifyFingerprint toy fp [[2], fp_bytes] [] = None) =
          Matches toy [[2], fp_bytes] [fp]"
      from a have "fp = fp_bytes"
        by (simp add: ca_convertFingerprint_fp_text)
      with b show ?thesis
        by simp
    qed
  qed
  have tls: "(verifyPeerCertificateAndFingerprints toy (Addr_literal [fp_bytes])
         (caller_skip (None :: tls_callback Config option)) tls_init [[2]] [] = None) =
      (caller_skip (None :: tls_callback Config option) \<or> list_ex (validates toy) [[2]] \<or> Matches toy [[2]] [fp_bytes])"
  proof -
    from conjunct2 [OF mp [OF conjunct2 [OF T] h2]] show ?thesis
    proof (elim exE conjE)
      fix fp
      assume a: "tls_convertFingerprint fp_text = Inr fp"
        and b: "list_ex (parses toy) [[2]] \<longrightarrow>
          (verifyPeerCertificateAndFingerprints toy (Addr_literal [fp])
             (caller_skip (None :: tls_callback Config option)) tls_init [[2]] [] = None) =
          (caller_skip (None :: tls_callback Config option) \<or> list_ex (validates toy) [[2]] \<or> Matches toy [[2]] [fp])"
      from a have "fp = fp_bytes"
        by (simp add: tls_convertFingerprint_fp_text)
      with b h3 show ?thesis
        by simp
    qed
  qed
  from tls n have rej: "verifyPeerCertificateAndFingerprints toy (Addr_literal [fp_bytes])
         (caller_skip (None :: tls_callback Config option)) tls_init [[2]] [] \<noteq> None"
    by simp
  note h1a = conjunct1 [OF h1] and h1b = conjunct2 [OF h1]
  show ?thesis
    by (intro conjI) (fact h1a h1b ca_convertFingerprint_fp_text ca m h2 h3 tls rej)+
qed

subsection \<open>AddCertificate\<close>

text \<open>
  C5. The claim says that \<open>AddCertificate\<close> returns an error, without ending the
  process, when PEM decoding fails. The code calls \<open>log.Fatalln\<close> there, before the
  statement that returns the error: with a fatal log call that ends the process, a
  text that is not empty and holds no PEM block ends the process inside the call, with
  the mutex still held.
\<close>

theorem AddCertificate_exits_on_undecodable_PEM:
  "Fatalln_exits L \<Longrightarrow> certificate \<noteq> [] \<Longrightarrow> pem_Decode L certificate = None \<Longrightarrow>
   AddCertificate L certificate s = (Exits, ca_lock s)"
  by (simp add: AddCertificate_def defer_Unlock_def Let_def)

theorem AddCertificate_exits_on_undecodable_PEM_witness:
  "Fatalln_exits toy \<and> ''not a certificate'' \<noteq> []
   \<and> pem_Decode toy ''not a certificate'' = None
   \<and> AddCertificate toy ''not a certificate'' empty_pool_state = (Exits, ca_lock empty_pool_state)"
proof -
  have f: "Fatalln_exits toy" by (simp add: toy_def)
  have a: "''not a certificate'' \<noteq> []" by simp
  have b: "pem_Decode toy ''not a certificate'' = None" by (simp add: toy_def)
  note T = AddCertificate_exits_on_undecodable_PEM [OF f a b, of empty_pool_state]
  show ?thesis
    by (intro conjI) (fact f a b T)+
qed

text \<open>
  The other cases: the empty text and a block that does not parse are answered with an
  error and change neither variable; a certificate that parses is appended to both
  when the pool was built, and the call panics on the nil pool when it was not.
\<close>

lemma AddCertificate_returns:
  "AddCertificate L [] s = (Returns (Some (Errorf ''certificate is empty'')), ca_unlock (ca_lock s))"
  "certificate \<noteq> [] \<Longrightarrow> pem_Decode L certificate = Some der \<Longrightarrow>
   ParseCertificate L der = None \<Longrightarrow>
   AddCertificate L certificate s =
     (Returns (Some (Errorf ''add certificate failed'')), ca_unlock (ca_lock s))"
  "certificate \<noteq> [] \<Longrightarrow> pem_Decode L certificate = Some der \<Longrightarrow>
   ParseCertificate L der = Some cert \<Longrightarrow> globalCertPool s = Some pool \<Longrightarrow>
   \<exists>s'. AddCertificate L certificate s = (Returns None, s')
        \<and> trustCerts s' = trustCerts s @ [Some cert]
        \<and> globalCertPool s' = Some (AddCert cert pool)"
  "certificate \<noteq> [] \<Longrightarrow> pem_Decode L certificate = Some der \<Longrightarrow>
   ParseCertificate L der = Some cert \<Longrightarrow> globalCertPool s = None \<Longrightarrow>
   fst (AddCertificate L certificate s) =
     Panics ''invalid memory address or nil pointer dereference''"
  by (simp_all add: AddCertificate_def defer_Unlock_def Let_def and_then_def
      globalCertPool_AddCert_def set_trustCerts_def set_globalCertPool_def ca_lock_def
      ca_unlock_def)

subsection \<open>AddCertificateKeyPair\<close>

lemma range_Certificate_bad_entry:
  "list_all (parses L) good \<Longrightarrow> \<not> parses L bad \<Longrightarrow> globalCertPool s \<noteq> None \<Longrightarrow>
   \<exists>s'. range_Certificate L (good @ bad # rest) s =
          (Panics ''adding nil Certificate to CertPool'', s')
        \<and> trustCerts s' = trustCerts s @ map (ParseCertificate L) good @ [None]"
proof (induction good arbitrary: s)
  case Nil
  then show ?case
    by (simp add: parses_def Let_def and_then_def globalCertPool_AddCert_def set_trustCerts_def
        log_Warnln_def)
next
  case (Cons g good)
  from Cons.prems obtain cert pool where g: "ParseCertificate L g = Some cert"
    and pool: "globalCertPool s = Some pool"
    by (auto simp: parses_def)
  let ?s3 = "set_globalCertPool (Some (AddCert cert pool))
               (set_trustCerts (trustCerts s @ [Some cert]) s)"
  have step: "range_Certificate L ((g # good) @ bad # rest) s =
      range_Certificate L (good @ bad # rest) ?s3"
    using g pool
    by (simp add: Let_def and_then_def globalCertPool_AddCert_def set_trustCerts_def)
  have "globalCertPool ?s3 \<noteq> None"
    by (simp add: set_globalCertPool_def)
  with Cons.IH [of ?s3] Cons.prems obtain s' where
    "range_Certificate L (good @ bad # rest) ?s3 =
       (Panics ''adding nil Certificate to CertPool'', s')"
    "trustCerts s' = trustCerts ?s3 @ map (ParseCertificate L) good @ [None]"
    by auto
  with step g show ?case
    by (simp add: set_globalCertPool_def set_trustCerts_def)
qed

text \<open>
  C6. The claim says that an entry of the bundle that fails X.509 parsing is warned
  about and skipped, and that the remaining entries are still added. The loop has no
  \<open>continue\<close> after the warning: it appends the nil certificate to \<open>trustCerts\<close> and
  passes it to \<open>AddCert\<close>, which panics. With the pool built and the entries before
  the bad one parsing, the call panics at the bad entry; \<open>trustCerts\<close> then ends in a
  nil pointer and the entries after the bad one were not looked at.
\<close>

theorem AddCertificateKeyPair_panics_on_unparseable_entry:
  assumes "ParseCert L certificate privateKey = (good @ bad # rest, err)"
    and "list_all (parses L) good" and "\<not> parses L bad" and "globalCertPool s \<noteq> None"
  shows "\<exists>s'. AddCertificateKeyPair L certificate privateKey s =
            (Panics ''adding nil Certificate to CertPool'', s')
          \<and> trustCerts s' = trustCerts s @ map (ParseCertificate L) good @ [None]"
proof (cases "err = None")
  case True
  with assms(1) range_Certificate_bad_entry [OF assms(2,3,4), of rest] show ?thesis
    by (simp add: AddCertificateKeyPair_def)
next
  case False
  let ?s = "log_Warnln ''failed to parse certificate and privateKey'' s"
  have "globalCertPool ?s \<noteq> None" "trustCerts ?s = trustCerts s"
    using assms(4) by (simp_all add: log_Warnln_def)
  with False assms(1) range_Certificate_bad_entry [OF assms(2,3), of ?s rest] show ?thesis
    by (simp add: AddCertificateKeyPair_def)
qed

theorem AddCertificateKeyPair_panics_on_unparseable_entry_witness:
  "ParseCert toy ''bundle'' ''key'' = ([[1]] @ [] # [[2]], None)
   \<and> list_all (parses toy) [[1]] \<and> \<not> parses toy [] \<and> parses toy [2]
   \<and> globalCertPool empty_pool_state \<noteq> None
   \<and> (\<exists>s'. AddCertificateKeyPair toy ''bundle'' ''key'' empty_pool_state =
            (Panics ''adding nil Certificate to CertPool'', s')
          \<and> trustCerts s' =
              trustCerts empty_pool_state @ map (ParseCertificate toy) [[1]] @ [None])"
proof -
  have a: "ParseCert toy ''bundle'' ''key'' = ([[1]] @ [] # [[2]], None)"
    by (simp add: toy_def)
  have b: "list_all (parses toy) [[1]]" by (simp add: parses_def toy_def)
  have c: "\<not> parses toy []" by (simp add: parses_def toy_def)
  have c': "parses toy [2]" by (simp add: parses_def toy_def)
  have d: "globalCertPool empty_pool_state \<noteq> None" by (simp add: empty_pool_state_def)
  note T = AddCertificateKeyPair_panics_on_unparseable_entry [OF a b c d]
  show ?thesis
    by (intro conjI) (fact a b c c' d T)+
qed

subsection \<open>The pool after a reset, and with both sources disabled\<close>

lemma set_fold_AddCert: "set (fold AddCert certs pool) = set pool \<union> set certs"
  by (induction certs arbitrary: pool) (auto simp: AddCert_def)

lemma initializeCertPool_no_custom:
  assumes "trustCerts s = []"
  shows "\<exists>s'. initializeCertPool E L s = (Returns (), s')
           \<and> trustCerts s' = []
           \<and> globalCertPool s' = Some (fold AddCert (embedded_roots E L) (OS_roots E L))"
  using assms
  by (auto simp: initializeCertPool_def Let_def and_then_def set_globalCertPool_def
      AppendCertsFromPEM_def OS_roots_def embedded_roots_def split: sum.splits)

text \<open>
  C7. After \<open>ResetCertificate\<close>, whatever \<open>AddCertificate\<close> calls came before it: the call
  returns, \<open>trustCerts\<close> is empty, and the pool holds exactly the roots of the operating
  system (unless disabled) and the embedded roots (unless disabled), so that a chain
  which neither of these anchors no longer validates against the pool.
\<close>

theorem Reset_discards_custom_certificates:
  "\<exists>s' pool. ResetCertificate E L (AddCertificates L certificates s) = (Returns (), s')
      \<and> trustCerts s' = []
      \<and> globalCertPool s' = Some pool
      \<and> set pool = set (OS_roots E L) \<union> set (embedded_roots E L)
      \<and> (\<not> VerifyChain L (OS_roots E L) rawCerts \<and> \<not> VerifyChain L (embedded_roots E L) rawCerts
           \<longrightarrow> \<not> VerifyChain L pool rawCerts)"
proof -
  let ?s0 = "set_trustCerts [] (ca_lock (AddCertificates L certificates s))"
  have "trustCerts ?s0 = []"
    by (simp add: set_trustCerts_def)
  from initializeCertPool_no_custom [OF this, of E L] obtain s1 where
    s1: "initializeCertPool E L ?s0 = (Returns (), s1)" "trustCerts s1 = []"
      "globalCertPool s1 = Some (fold AddCert (embedded_roots E L) (OS_roots E L))"
    by blast
  let ?pool = "fold AddCert (embedded_roots E L) (OS_roots E L)"
  have r: "ResetCertificate E L (AddCertificates L certificates s) = (Returns (), ca_unlock s1)"
    using s1(1) by (simp add: ResetCertificate_def defer_Unlock_def)
  have p: "set ?pool = set (OS_roots E L) \<union> set (embedded_roots E L)"
    by (rule set_fold_AddCert)
  have v: "\<not> VerifyChain L (OS_roots E L) rawCerts \<and> \<not> VerifyChain L (embedded_roots E L) rawCerts
           \<longrightarrow> \<not> VerifyChain L ?pool rawCerts"
    using p by (auto simp: VerifyChain_def list_ex_iff)
  have t: "trustCerts (ca_unlock s1) = []" "globalCertPool (ca_unlock s1) = Some ?pool"
    using s1(2,3) by (simp_all add: ca_unlock_def)
  show ?thesis
    using r t p v by blast
qed

lemma custom_state_eq:
  "custom_state =
     \<lparr>trustCerts = [Some \<lparr>Raw = [65]\<rparr>, Some \<lparr>Raw = [67]\<rparr>],
      globalCertPool = Some [\<lparr>Raw = [65]\<rparr>, \<lparr>Raw = [67]\<rparr>],
      ca_trace = [Lock, Write ''globalCertPool'', Unlock,
                  Lock, Write ''trustCerts'', Write ''globalCertPool'', Unlock,
                  Lock, Write ''trustCerts'', Write ''globalCertPool'', Unlock]\<rparr>"
  by (simp add: custom_state_def empty_pool_state_def AddCertificate_def toy_def Let_def
      and_then_def globalCertPool_AddCert_def set_trustCerts_def set_globalCertPool_def
      defer_Unlock_def ca_lock_def ca_unlock_def AddCert_def)

theorem Reset_discards_custom_certificates_witness:
  "VerifyChain toy (the (globalCertPool custom_state)) [[65]]
   \<and> \<not> VerifyChain toy (OS_roots both_enabled toy) [[65]]
   \<and> \<not> VerifyChain toy (embedded_roots both_enabled toy) [[65]]
   \<and> (\<exists>s' pool. ResetCertificate both_enabled toy custom_state = (Returns (), s')
      \<and> trustCerts s' = []
      \<and> globalCertPool s' = Some pool
      \<and> set pool = set (OS_roots both_enabled toy) \<union> set (embedded_roots both_enabled toy)
      \<and> \<not> VerifyChain toy pool [[65]])"
proof -
  have before: "VerifyChain toy (the (globalCertPool custom_state)) [[65]]"
    by (simp add: custom_state_eq VerifyChain_def toy_def)
  have os: "\<not> VerifyChain toy (OS_roots both_enabled toy) [[65]]"
    by (simp add: VerifyChain_def OS_roots_def both_enabled_def toy_def)
  have emb: "\<not> VerifyChain toy (embedded_roots both_enabled toy) [[65]]"
    by (simp add: VerifyChain_def embedded_roots_def both_enabled_def toy_def)
  from Reset_discards_custom_certificates [of both_enabled toy "[''-----A'', ''-----C'']"
      empty_pool_state "[[65]]"]
  obtain s' pool where r:
    "ResetCertificate both_enabled toy custom_state = (Returns (), s')"
    "trustCerts s' = []" "globalCertPool s' = Some pool"
    "set pool = set (OS_roots both_enabled toy) \<union> set (embedded_roots both_enabled toy)"
    "\<not> VerifyChain toy (OS_roots both_enabled toy) [[65]]
       \<and> \<not> VerifyChain toy (embedded_roots both_enabled toy) [[65]]
     \<longrightarrow> \<not> VerifyChain toy pool [[65]]"
    unfolding custom_state_def by (elim exE conjE)
  from r(5) os emb have "\<not> VerifyChain toy pool [[65]]"
    by simp
  with r(1-4) have "\<exists>s' pool. ResetCertificate both_enabled toy custom_state = (Returns (), s')
      \<and> trustCerts s' = []
      \<and> globalCertPool s' = Some pool
      \<and> set pool = set (OS_roots both_enabled toy) \<union> set (embedded_roots both_enabled toy)
      \<and> \<not> VerifyChain toy pool [[65]]"
    by (intro exI conjI)
  with before os emb show ?thesis
    by (intro conjI)
qed

text \<open>
  C8. With both disable flags set and no custom certificate: building the pool returns
  (no error, no panic) and leaves the empty pool, through \<open>initializeCertPool\<close>,
  through \<open>getCertPool\<close> on first use and through \<open>ResetCertificate\<close>; and chain
  validation against the empty pool rejects every chain.
\<close>

theorem both_sources_disabled_pool_empty:
  "DisableSystemCa E \<and> DisableEmbedCa E \<and> trustCerts s = [] \<longrightarrow>
     (\<exists>s'. initializeCertPool E L s = (Returns (), s')
           \<and> globalCertPool s' = Some [] \<and> trustCerts s' = [])
     \<and> (globalCertPool s = None \<longrightarrow>
          (\<exists>s'. getCertPool E L s = (Returns (Some []), s') \<and> globalCertPool s' = Some []))
     \<and> (\<exists>s'. ResetCertificate E L s = (Returns (), s') \<and> globalCertPool s' = Some [])
     \<and> \<not> VerifyChain L [] rawCerts"
proof (intro impI)
  assume h: "DisableSystemCa E \<and> DisableEmbedCa E \<and> trustCerts s = []"
  then have roots: "OS_roots E L = []" "embedded_roots E L = []"
    by (simp_all add: OS_roots_def embedded_roots_def)
  have init: "\<exists>s'. initializeCertPool E L s0 = (Returns (), s')
           \<and> globalCertPool s' = Some [] \<and> trustCerts s' = []" if "trustCerts s0 = []" for s0
    using initializeCertPool_no_custom [OF that, of E L] roots by auto
  have a: "\<exists>s'. initializeCertPool E L s = (Returns (), s')
           \<and> globalCertPool s' = Some [] \<and> trustCerts s' = []"
    using init h by blast
  have b: "globalCertPool s = None \<longrightarrow>
          (\<exists>s'. getCertPool E L s = (Returns (Some []), s') \<and> globalCertPool s' = Some [])"
  proof
    assume n: "globalCertPool s = None"
    have "trustCerts (ca_lock s) = []" "globalCertPool (ca_lock s) = None"
      using h n by (simp_all add: ca_lock_def)
    with init [of "ca_lock s"] obtain s1 where
      "initializeCertPool E L (ca_lock s) = (Returns (), s1)" "globalCertPool s1 = Some []"
      by blast
    with n \<open>globalCertPool (ca_lock s) = None\<close>
    show "\<exists>s'. getCertPool E L s = (Returns (Some []), s') \<and> globalCertPool s' = Some []"
      by (simp add: getCertPool_def Let_def and_then_def defer_Unlock_def ca_unlock_def)
  qed
  have c: "\<exists>s'. ResetCertificate E L s = (Returns (), s') \<and> globalCertPool s' = Some []"
  proof -
    have "trustCerts (set_trustCerts [] (ca_lock s)) = []"
      by (simp add: set_trustCerts_def)
    with init obtain s1 where
      "initializeCertPool E L (set_trustCerts [] (ca_lock s)) = (Returns (), s1)"
      "globalCertPool s1 = Some []"
      by blast
    then show ?thesis
      by (simp add: ResetCertificate_def defer_Unlock_def ca_unlock_def)
  qed
  have d: "\<not> VerifyChain L [] rawCerts"
    by (simp add: VerifyChain_def)
  from a b c d show "(\<exists>s'. initializeCertPool E L s = (Returns (), s')
           \<and> globalCertPool s' = Some [] \<and> trustCerts s' = [])
     \<and> (globalCertPool s = None \<longrightarrow>
          (\<exists>s'. getCertPool E L s = (Returns (Some []), s') \<and> globalCertPool s' = Some []))
     \<and> (\<exists>s'. ResetCertificate E L s = (Returns (), s') \<and> globalCertPool s' = Some [])
     \<and> \<not> VerifyChain L [] rawCerts"
    by (intro conjI)
qed

theorem both_sources_disabled_pool_empty_witness:
  "(DisableSystemCa both_disabled \<and> DisableEmbedCa both_disabled \<and> trustCerts ca_init = [])
   \<and> globalCertPool ca_init = None
   \<and> (\<exists>s'. getCertPool both_disabled toy ca_init = (Returns (Some []), s')
           \<and> globalCertPool s' = Some [])
   \<and> \<not> VerifyChain toy [] [[1]]
   \<and> VerifyChain toy (OS_roots both_enabled toy) [[1]]"
proof -
  have h: "DisableSystemCa both_disabled \<and> DisableEmbedCa both_disabled \<and> trustCerts ca_init = []"
    by (simp add: both_disabled_def ca_init_def)
  have n: "globalCertPool ca_init = None"
    by (simp add: ca_init_def)
  note T = mp [OF both_sources_disabled_pool_empty [of both_disabled ca_init toy "[[1]]"] h]
  note g = mp [OF conjunct1 [OF conjunct2 [OF T]] n]
  note v = conjunct2 [OF conjunct2 [OF conjunct2 [OF T]]]
  have e: "VerifyChain toy (OS_roots both_enabled toy) [[1]]"
    by (simp add: VerifyChain_def OS_roots_def both_enabled_def toy_def)
  show ?thesis
    by (intro conjI) (fact h [THEN conjunct1] h [THEN conjunct2, THEN conjunct1]
        h [THEN conjunct2, THEN conjunct2] n g v e)+
qed

subsection \<open>The mutex\<close>

lemma not_guarded_append: "\<not> guarded held es \<Longrightarrow> \<not> guarded held (es @ es')"
  by (induction held es rule: guarded.induct) auto

lemma globalCertPool_AddCert_trace:
  "\<exists>es. ca_trace (snd (globalCertPool_AddCert cert s)) = ca_trace s @ es"
  by (auto simp: globalCertPool_AddCert_def set_globalCertPool_def split: option.splits)

lemma range_Certificate_trace:
  "\<exists>es. ca_trace (snd (range_Certificate L certs s)) = ca_trace s @ es"
proof (induction certs arbitrary: s)
  case Nil
  then show ?case by simp
next
  case (Cons certPEM certs)
  let ?c = "ParseCertificate L certPEM"
  let ?s1 = "if ?c = None then log_Warnln ''failed to parse x509 certificate'' s else s"
  let ?s2 = "set_trustCerts (trustCerts ?s1 @ [?c]) ?s1"
  obtain es2 where es2: "ca_trace ?s2 = ca_trace s @ es2"
    by (cases "?c = None") (simp_all add: set_trustCerts_def log_Warnln_def)
  obtain out s3 where r: "globalCertPool_AddCert ?c ?s2 = (out, s3)"
    by (cases "globalCertPool_AddCert ?c ?s2")
  with globalCertPool_AddCert_trace [of ?c ?s2] obtain es3 where
    es3: "ca_trace s3 = ca_trace ?s2 @ es3"
    by auto
  show ?case
  proof (cases out)
    case (Returns u)
    from Cons.IH [of s3] obtain es where "ca_trace (snd (range_Certificate L certs s3)) =
        ca_trace s3 @ es" by blast
    with r Returns es2 es3 show ?thesis
      by (simp add: Let_def and_then_def)
  next
    case (Panics msg)
    with r es2 es3 show ?thesis
      by (simp add: Let_def and_then_def)
  next
    case Exits
    with r es2 es3 show ?thesis
      by (simp add: Let_def and_then_def)
  qed
qed

lemma guarded_warnings:
  "list_all (\<lambda>e. \<exists>msg. e = Warnln msg) ws \<Longrightarrow> guarded held (ws @ es) = guarded held es"
  by (induction ws) auto

lemma range_Certificate_step_trace:
  "\<exists>es. ca_trace (snd (and_then (globalCertPool_AddCert c s2)
                         (\<lambda>_ s3. range_Certificate L rest s3))) = ca_trace s2 @ es"
proof -
  obtain out s3 where r: "globalCertPool_AddCert c s2 = (out, s3)"
    by (cases "globalCertPool_AddCert c s2")
  with globalCertPool_AddCert_trace [of c s2] obtain es3 where
    es3: "ca_trace s3 = ca_trace s2 @ es3"
    by auto
  from range_Certificate_trace [of L rest s3] obtain es where
    es: "ca_trace (snd (range_Certificate L rest s3)) = ca_trace s3 @ es"
    by blast
  show ?thesis
    using r es3 es by (cases out) (simp_all add: and_then_def)
qed

lemma range_Certificate_unguarded:
  assumes "list_all (\<lambda>e. \<exists>msg. e = Warnln msg) (ca_trace s)"
  shows "\<not> guarded False (ca_trace (snd (range_Certificate L (certPEM # rest) s)))"
proof -
  let ?c = "ParseCertificate L certPEM"
  let ?s1 = "if ?c = None then log_Warnln ''failed to parse x509 certificate'' s else s"
  let ?s2 = "set_trustCerts (trustCerts ?s1 @ [?c]) ?s1"
  have w: "list_all (\<lambda>e. \<exists>msg. e = Warnln msg) (ca_trace ?s1)"
    using assms by (simp add: log_Warnln_def)
  have "ca_trace ?s2 = ca_trace ?s1 @ [Write ''trustCerts'']"
    by (simp add: set_trustCerts_def)
  with guarded_warnings [OF w, of False "[Write ''trustCerts'']"]
  have ng: "\<not> guarded False (ca_trace ?s2)"
    by simp
  from range_Certificate_step_trace [of ?c ?s2 L rest] obtain es where
    "ca_trace (snd (range_Certificate L (certPEM # rest) s)) = ca_trace ?s2 @ es"
    by (auto simp: Let_def)
  with not_guarded_append [OF ng, of es] show ?thesis
    by simp
qed

text \<open>
  C9. The claim says that every mutation of the shared state holds the exclusive lock.
  \<open>AddCertificateKeyPair\<close> never calls \<open>mutex.Lock\<close>: for every bundle with at least one
  entry its trace has a write to \<open>trustCerts\<close> while the mutex is not held.
\<close>

theorem AddCertificateKeyPair_writes_without_lock:
  assumes "ParseCert L certificate privateKey = (certPEM # rest, err)"
  shows "\<not> guarded False
           (ca_trace (snd (AddCertificateKeyPair L certificate privateKey (fresh s))))"
proof -
  let ?s = "if err \<noteq> None
            then log_Warnln ''failed to parse certificate and privateKey'' (fresh s)
            else fresh s"
  have "list_all (\<lambda>e. \<exists>msg. e = Warnln msg) (ca_trace ?s)"
    by (simp add: log_Warnln_def fresh_def)
  from range_Certificate_unguarded [OF this, of L certPEM rest] assms show ?thesis
    by (simp add: AddCertificateKeyPair_def)
qed

theorem AddCertificateKeyPair_writes_without_lock_witness:
  "ParseCert toy ''bundle'' ''key'' = ([1] # [[], [2]], None)
   \<and> \<not> guarded False
        (ca_trace (snd (AddCertificateKeyPair toy ''bundle'' ''key'' (fresh empty_pool_state))))
   \<and> ca_trace (snd (AddCertificateKeyPair toy ''bundle'' ''key'' (fresh empty_pool_state))) =
       [Write ''trustCerts'', Write ''globalCertPool'',
        Warnln ''failed to parse x509 certificate'', Write ''trustCerts'']
   \<and> guarded False
        (ca_trace (snd (AddCertificate toy ''-----A'' (fresh empty_pool_state))))"
proof -
  have a: "ParseCert toy ''bundle'' ''key'' = ([1] # [[], [2]], None)"
    by (simp add: toy_def)
  note T = AddCertificateKeyPair_writes_without_lock [OF a, of empty_pool_state]
  have tr: "ca_trace (snd (AddCertificateKeyPair toy ''bundle'' ''key'' (fresh empty_pool_state))) =
       [Write ''trustCerts'', Write ''globalCertPool'',
        Warnln ''failed to parse x509 certificate'', Write ''trustCerts'']"
    by (simp add: AddCertificateKeyPair_def toy_def fresh_def empty_pool_state_def Let_def
        and_then_def globalCertPool_AddCert_def set_trustCerts_def set_globalCertPool_def
        log_Warnln_def AddCert_def)
  have g: "guarded False
        (ca_trace (snd (AddCertificate toy ''-----A'' (fresh empty_pool_state))))"
    by (simp add: AddCertificate_def toy_def fresh_def empty_pool_state_def Let_def
        and_then_def globalCertPool_AddCert_def set_trustCerts_def set_globalCertPool_def
        defer_Unlock_def ca_lock_def ca_unlock_def AddCert_def)
  show ?thesis
    by (intro conjI) (fact a T tr g)+
qed

text \<open>The other mutations write under the lock.\<close>

lemma siblings_write_under_lock:
  "guarded False (ca_trace (snd (AddCertificate L certificate (fresh s))))"
  "guarded False (ca_trace (snd (ResetCertificate E L (fresh s))))"
  "guarded False (tls_trace (snd (AddCertFingerprint fingerprint (s'\<lparr>tls_trace := []\<rparr>))))"
  by (auto simp: AddCertificate_def ResetCertificate_def initializeCertPool_def
      AddCertFingerprint_def fresh_def Let_def and_then_def globalCertPool_AddCert_def
      set_trustCerts_def set_globalCertPool_def defer_Unlock_def ca_lock_def ca_unlock_def
      tls_lock_def tls_unlock_def set_globalFingerprints_def
      split: option.splits sum.splits)

section \<open>Properties of fingerprint parsing\<close>

lemma nat_48_57: "48 \<le> (n::nat) \<Longrightarrow> n \<le> 57 \<Longrightarrow>
    n = 48 \<or> n = 49 \<or> n = 50 \<or> n = 51 \<or> n = 52 \<or> n = 53 \<or> n = 54 \<or> n = 55 \<or> n = 56 \<or> n = 57"
  by arith

lemma nat_97_102: "97 \<le> (n::nat) \<Longrightarrow> n \<le> 102 \<Longrightarrow>
    n = 97 \<or> n = 98 \<or> n = 99 \<or> n = 100 \<or> n = 101 \<or> n = 102"
  by arith

lemma nat_65_70: "65 \<le> (n::nat) \<Longrightarrow> n \<le> 70 \<Longrightarrow>
    n = 65 \<or> n = 66 \<or> n = 67 \<or> n = 68 \<or> n = 69 \<or> n = 70"
  by arith

lemma of_char_is: "(of_char c :: nat) = of_char d \<Longrightarrow> c = d"
  by simp

lemma hex_digit_cases:
  "is_hex_digit c \<Longrightarrow>
     c = CHR ''0'' \<or> c = CHR ''1'' \<or> c = CHR ''2'' \<or> c = CHR ''3'' \<or> c = CHR ''4''
     \<or> c = CHR ''5'' \<or> c = CHR ''6'' \<or> c = CHR ''7'' \<or> c = CHR ''8'' \<or> c = CHR ''9''
     \<or> c = CHR ''a'' \<or> c = CHR ''b'' \<or> c = CHR ''c'' \<or> c = CHR ''d'' \<or> c = CHR ''e''
     \<or> c = CHR ''f'' \<or> c = CHR ''A'' \<or> c = CHR ''B'' \<or> c = CHR ''C'' \<or> c = CHR ''D''
     \<or> c = CHR ''E'' \<or> c = CHR ''F''"
  by (simp add: is_hex_digit_def)

lemma fromHexChar_digit:
  "is_hex_digit c \<Longrightarrow> fromHexChar c = Some (of_nat (hex_value c))"
  by (drule hex_digit_cases, elim disjE) (simp_all add: fromHexChar_def hex_value_def)

lemma digit_0_9: "48 \<le> (of_char c :: nat) \<Longrightarrow> (of_char c :: nat) \<le> 57 \<Longrightarrow> c \<in> set ''0123456789''"
  using nat_48_57 [of "of_char c"]
    of_char_is [of c "CHR ''0''"] of_char_is [of c "CHR ''1''"] of_char_is [of c "CHR ''2''"]
    of_char_is [of c "CHR ''3''"] of_char_is [of c "CHR ''4''"] of_char_is [of c "CHR ''5''"]
    of_char_is [of c "CHR ''6''"] of_char_is [of c "CHR ''7''"] of_char_is [of c "CHR ''8''"]
    of_char_is [of c "CHR ''9''"]
  by auto

lemma digit_a_f: "97 \<le> (of_char c :: nat) \<Longrightarrow> (of_char c :: nat) \<le> 102 \<Longrightarrow> c \<in> set ''abcdef''"
  using nat_97_102 [of "of_char c"]
    of_char_is [of c "CHR ''a''"] of_char_is [of c "CHR ''b''"] of_char_is [of c "CHR ''c''"]
    of_char_is [of c "CHR ''d''"] of_char_is [of c "CHR ''e''"] of_char_is [of c "CHR ''f''"]
  by auto

lemma digit_A_F: "65 \<le> (of_char c :: nat) \<Longrightarrow> (of_char c :: nat) \<le> 70 \<Longrightarrow> c \<in> set ''ABCDEF''"
  using nat_65_70 [of "of_char c"]
    of_char_is [of c "CHR ''A''"] of_char_is [of c "CHR ''B''"] of_char_is [of c "CHR ''C''"]
    of_char_is [of c "CHR ''D''"] of_char_is [of c "CHR ''E''"] of_char_is [of c "CHR ''F''"]
  by auto

lemma fromHexChar_no_digit:
  "\<not> is_hex_digit c \<Longrightarrow> fromHexChar c = None"
  unfolding fromHexChar_def Let_def is_hex_digit_def
  using digit_0_9 [of c] digit_a_f [of c] digit_A_F [of c]
  by auto

lemma hex_value_less: "is_hex_digit c \<Longrightarrow> hex_value c < 16"
  by (drule hex_digit_cases, elim disjE) (simp_all add: hex_value_def)


lemma nat_nibbles:
  assumes "b < 16"
  shows "push_bit 4 (a::nat) OR b = 16 * a + b"
proof -
  have "\<not> bit (push_bit 4 a) n \<or> \<not> bit b n" for n
  proof (cases "n < 4")
    case True
    then show ?thesis by (simp add: bit_push_bit_iff)
  next
    case False
    then have "(2::nat) ^ 4 \<le> 2 ^ n"
      by (intro power_increasing) simp_all
    with assms have "b < 2 ^ n" by simp
    then show ?thesis by (simp add: bit_iff_odd)
  qed
  then have "push_bit 4 a + b = push_bit 4 a OR b"
    by (rule disjunctive_add)
  then show ?thesis
    by (simp add: push_bit_eq_mult)
qed

lemma byte_of_nibbles:
  "b < 16 \<Longrightarrow> push_bit 4 (of_nat a :: byte) OR of_nat b = of_nat (16 * a + b)"
  using nat_nibbles [of b a] by (metis push_bit_of_nat of_nat_or_eq)

lemma fromHexChar_eq:
  "fromHexChar c = (if is_hex_digit c then Some (of_nat (hex_value c)) else None)"
  by (simp add: fromHexChar_digit fromHexChar_no_digit)

lemma DecodeString_pair:
  "DecodeString (p # q # src) =
     (if \<not> is_hex_digit p then Inl (InvalidByteError p)
      else if \<not> is_hex_digit q then Inl (InvalidByteError q)
      else (case DecodeString src of
              Inl err \<Rightarrow> Inl err
            | Inr dst \<Rightarrow> Inr (of_nat (16 * hex_value p + hex_value q) # dst)))"
proof (cases "is_hex_digit p \<and> is_hex_digit q")
  case True
  then have "push_bit 4 (of_nat (hex_value p) :: byte) OR of_nat (hex_value q) =
      of_nat (16 * hex_value p + hex_value q)"
    by (simp add: byte_of_nibbles hex_value_less)
  with True show ?thesis
    by (cases "DecodeString src") (simp_all add: fromHexChar_eq)
next
  case False
  then show ?thesis
    by (auto simp: fromHexChar_eq)
qed

lemma DecodeString_single: "DecodeString [p] \<noteq> Inr dst"
  by (simp add: fromHexChar_eq)

lemma DecodeString_Inr_iff:
  "(DecodeString src = Inr dst) =
     (list_all is_hex_digit src \<and> even (length src) \<and> dst = hex_bytes src)"
proof (induction src arbitrary: dst rule: hex_bytes.induct)
  case (1 hi lo rest)
  show ?case
  proof (cases "DecodeString rest")
    case (Inl err)
    then have "\<not> (list_all is_hex_digit rest \<and> even (length rest))"
      using "1.IH" [of "hex_bytes rest"] by simp
    with Inl show ?thesis
      by (auto simp: DecodeString_pair simp del: DecodeString.simps)
  next
    case (Inr tl)
    then have "list_all is_hex_digit rest \<and> even (length rest) \<and> tl = hex_bytes rest"
      using "1.IH" [of tl] by simp
    with Inr show ?thesis
      by (auto simp: DecodeString_pair simp del: DecodeString.simps)
  qed
next
  case 3
  show ?case by auto
next
  case (2 v)
  show ?case using DecodeString_single [of v dst] by simp
qed

lemma length_hex_bytes: "length (hex_bytes src) = length src div 2"
  by (induction src rule: hex_bytes.induct) simp_all

lemma DecodeString_32_iff:
  "(DecodeString src = Inr dst \<and> length dst = 32) =
     (list_all is_hex_digit src \<and> length src = 64 \<and> dst = hex_bytes src)"
proof -
  have "(even (length src) \<and> length src div 2 = 32) = (length src = 64)"
    by presburger
  then show ?thesis
    unfolding DecodeString_Inr_iff using length_hex_bytes [of src] by metis
qed

lemma tls_convertFingerprint_Inr_iff:
  "(tls_convertFingerprint fingerprint = Inr fpByte) =
     (list_all is_hex_digit fingerprint \<and> length fingerprint = 64 \<and> fpByte = hex_bytes fingerprint)"
  using DecodeString_32_iff [of fingerprint fpByte]
  by (auto simp: tls_convertFingerprint_def split: sum.splits)

lemma ca_convertFingerprint_Inr_iff:
  "(ca_convertFingerprint fingerprint = Inr fpByte) = (spec_Parse fingerprint = Some fpByte)"
  using DecodeString_32_iff [of "TrimSpace (Replace_colons fingerprint)" fpByte]
  by (auto simp: ca_convertFingerprint_def spec_Parse_def Let_def split: sum.splits)

lemma ca_convertFingerprint_Inl_iff:
  "(\<exists>err. ca_convertFingerprint fingerprint = Inl err) = (spec_Parse fingerprint = None)"
proof -
  have "(\<exists>err. ca_convertFingerprint fingerprint = Inl err) = (\<forall>fpByte. ca_convertFingerprint fingerprint \<noteq> Inr fpByte)"
    by (cases "ca_convertFingerprint fingerprint") auto
  then show ?thesis
    by (auto simp: ca_convertFingerprint_Inr_iff)
qed

lemma ToLower_hex_digit:
  "is_hex_digit c \<Longrightarrow> is_hex_digit (ToLower c) \<and> hex_value (ToLower c) = hex_value c"
  by (drule hex_digit_cases, elim disjE) (simp_all add: is_hex_digit_def hex_value_def ToLower_def)

lemma hex_value_ToLower:
  assumes "ToLower a = ToLower b" and "is_hex_digit a" and "is_hex_digit b"
  shows "hex_value a = hex_value b"
proof -
  have "hex_value a = hex_value (ToLower a)"
    using ToLower_hex_digit [OF assms(2)] by simp
  also have "\<dots> = hex_value (ToLower b)"
    using assms(1) by simp
  also have "\<dots> = hex_value b"
    using ToLower_hex_digit [OF assms(3)] by simp
  finally show ?thesis .
qed

lemma ToLower_not_hex_digit:
  assumes "is_hex_digit (ToLower c)"
  shows "is_hex_digit c"
proof (cases "map_of (zip ''ABCDEFGHIJKLMNOPQRSTUVWXYZ'' ''abcdefghijklmnopqrstuvwxyz'') c")
  case None
  then show ?thesis
    using assms by (simp add: ToLower_def)
next
  case (Some l)
  then have "(c, l) \<in> set (zip ''ABCDEFGHIJKLMNOPQRSTUVWXYZ'' ''abcdefghijklmnopqrstuvwxyz'')"
    by (rule map_of_SomeD)
  moreover from Some assms have "is_hex_digit l"
    by (simp add: ToLower_def)
  ultimately show ?thesis
    by (auto simp: is_hex_digit_def)
qed

lemma lower_digits:
  "map ToLower digits' = map ToLower digits \<Longrightarrow> list_all is_hex_digit digits \<Longrightarrow>
   list_all is_hex_digit digits'"
proof (induction digits arbitrary: digits')
  case Nil
  then show ?case by simp
next
  case (Cons c digits)
  from Cons.prems(1) obtain c' tl' where d: "digits' = c' # tl'"
    and h: "ToLower c' = ToLower c" and t: "map ToLower tl' = map ToLower digits"
    by (cases digits') simp_all
  from Cons.prems(2) have "is_hex_digit c" "list_all is_hex_digit digits"
    by simp_all
  then have "is_hex_digit (ToLower c')" "list_all is_hex_digit tl'"
    using ToLower_hex_digit [of c] h Cons.IH [OF t] by simp_all
  then show ?case
    using d ToLower_not_hex_digit [of c'] by simp
qed

lemma same_digits:
  "map ToLower digits' = map ToLower digits \<Longrightarrow> list_all is_hex_digit digits \<Longrightarrow>
   list_all is_hex_digit digits' \<Longrightarrow> hex_bytes digits' = hex_bytes digits"
proof (induction digits arbitrary: digits' rule: hex_bytes.induct)
  case (1 hi lo rest)
  from "1.prems"(1) obtain hi' tl' where d1: "digits' = hi' # tl'"
    and h1: "ToLower hi' = ToLower hi" and t1: "map ToLower tl' = map ToLower (lo # rest)"
    by (cases digits') simp_all
  from t1 obtain lo' rest' where d2: "tl' = lo' # rest'"
    and h2: "ToLower lo' = ToLower lo" and t2: "map ToLower rest' = map ToLower rest"
    by (cases tl') simp_all
  have digs: "is_hex_digit hi" "is_hex_digit lo" "list_all is_hex_digit rest"
    "is_hex_digit hi'" "is_hex_digit lo'" "list_all is_hex_digit rest'"
    using "1.prems"(2,3) d1 d2 by simp_all
  have "hex_bytes rest' = hex_bytes rest"
    using "1.IH" [OF t2 digs(3) digs(6)] .
  moreover have "hex_value hi' = hex_value hi"
    using hex_value_ToLower [OF h1 digs(4) digs(1)] .
  moreover have "hex_value lo' = hex_value lo"
    using hex_value_ToLower [OF h2 digs(5) digs(2)] .
  ultimately show ?case
    by (simp add: d1 d2)
next
  case 3
  then show ?case by simp
next
  case (2 v)
  then show ?case by (cases digits') simp_all
qed

text \<open>
  C3. The claim says that fingerprint parsing succeeds exactly when the string, after
  removing colons and surrounding white space, is a hexadecimal string of 32 bytes.
  The counterexample below shows that this fails for \<open>convertFingerprint\<close> of package
  tls, which removes nothing. As amended:
  \<^item> \<open>convertFingerprint\<close> of package ca succeeds exactly when \<open>Parse\<close> of the
    specification does, with the same 32 bytes, and fails with an error otherwise;
  \<^item> \<open>convertFingerprint\<close> of package tls succeeds exactly when the string itself
    consists of 64 hexadecimal digits, in any letter case, with the bytes they
    denote, and fails with an error otherwise;
  \<^item> in package ca, two strings that differ only in colons, surrounding white space
    and letter case parse to the same value.
\<close>

theorem fingerprint_parsing:
  "((ca_convertFingerprint fingerprint = Inr fpByte) = (spec_Parse fingerprint = Some fpByte))
   \<and> ((\<exists>err. ca_convertFingerprint fingerprint = Inl err) = (spec_Parse fingerprint = None))
   \<and> ((tls_convertFingerprint fingerprint = Inr fpByte) =
        (list_all is_hex_digit fingerprint \<and> length fingerprint = 64
         \<and> fpByte = hex_bytes fingerprint))
   \<and> ((\<exists>err. tls_convertFingerprint fingerprint = Inl err) =
        (\<not> (list_all is_hex_digit fingerprint \<and> length fingerprint = 64)))
   \<and> (ca_convertFingerprint fingerprint = Inr fpByte
        \<and> map ToLower (TrimSpace (Replace_colons other)) =
            map ToLower (TrimSpace (Replace_colons fingerprint))
        \<longrightarrow> ca_convertFingerprint other = Inr fpByte)"
proof (intro conjI impI)
  show "(ca_convertFingerprint fingerprint = Inr fpByte) = (spec_Parse fingerprint = Some fpByte)"
    by (rule ca_convertFingerprint_Inr_iff)
  show "(\<exists>err. ca_convertFingerprint fingerprint = Inl err) = (spec_Parse fingerprint = None)"
    by (rule ca_convertFingerprint_Inl_iff)
  show "(tls_convertFingerprint fingerprint = Inr fpByte) =
        (list_all is_hex_digit fingerprint \<and> length fingerprint = 64
         \<and> fpByte = hex_bytes fingerprint)"
    by (rule tls_convertFingerprint_Inr_iff)
  show "(\<exists>err. tls_convertFingerprint fingerprint = Inl err) =
        (\<not> (list_all is_hex_digit fingerprint \<and> length fingerprint = 64))"
  proof -
    have "(\<exists>err. tls_convertFingerprint fingerprint = Inl err) =
        (\<forall>fp. tls_convertFingerprint fingerprint \<noteq> Inr fp)"
      by (cases "tls_convertFingerprint fingerprint") auto
    then show ?thesis
      by (auto simp: tls_convertFingerprint_Inr_iff)
  qed
next
  assume h: "ca_convertFingerprint fingerprint = Inr fpByte
        \<and> map ToLower (TrimSpace (Replace_colons other)) =
            map ToLower (TrimSpace (Replace_colons fingerprint))"
  let ?d = "TrimSpace (Replace_colons fingerprint)"
  let ?d' = "TrimSpace (Replace_colons other)"
  from h have p: "spec_Parse fingerprint = Some fpByte"
    by (simp add: ca_convertFingerprint_Inr_iff)
  then have d: "list_all is_hex_digit ?d" "length ?d = 64" "fpByte = hex_bytes ?d"
    by (auto simp: spec_Parse_def Let_def split: if_splits)
  from h have m: "map ToLower ?d' = map ToLower ?d"
    by simp
  then have len: "length ?d' = length ?d"
    by (rule map_eq_imp_length_eq)
  have dig: "list_all is_hex_digit ?d'"
    using lower_digits [OF m d(1)] .
  have "hex_bytes ?d' = hex_bytes ?d"
    using same_digits [OF m d(1) dig] .
  with d len dig have "spec_Parse other = Some fpByte"
    by (simp add: spec_Parse_def Let_def)
  then show "ca_convertFingerprint other = Inr fpByte"
    by (simp add: ca_convertFingerprint_Inr_iff)
qed

lemma ca_convertFingerprint_fp_colons: "ca_convertFingerprint fp_colons = Inr fp_bytes"
  by code_simp

lemma tls_convertFingerprint_fp_colons:
  "tls_convertFingerprint fp_colons = Inl (InvalidByteError CHR '':'')"
  by code_simp

lemma TrimSpace_fp_colons: "TrimSpace (Replace_colons fp_colons) = fp_text"
  by code_simp

lemma TrimSpace_fp_text: "TrimSpace (Replace_colons fp_text) = fp_text"
  by code_simp

theorem fingerprint_parsing_counterexample:
  "spec_Parse fp_colons = Some fp_bytes
   \<and> tls_convertFingerprint fp_colons = Inl (InvalidByteError CHR '':'')"
  using ca_convertFingerprint_fp_colons tls_convertFingerprint_fp_colons
  by (simp add: ca_convertFingerprint_Inr_iff)

theorem fingerprint_parsing_witness:
  "(ca_convertFingerprint fp_colons = Inr fp_bytes
    \<and> map ToLower (TrimSpace (Replace_colons fp_text)) =
        map ToLower (TrimSpace (Replace_colons fp_colons)))
   \<and> ca_convertFingerprint fp_text = Inr fp_bytes
   \<and> spec_Parse fp_colons = Some fp_bytes
   \<and> tls_convertFingerprint fp_text = Inr fp_bytes
   \<and> (list_all is_hex_digit fp_text \<and> length fp_text = 64 \<and> fp_bytes = hex_bytes fp_text)"
proof -
  note T = fingerprint_parsing [of fp_colons fp_bytes fp_text]
  note T' = fingerprint_parsing [of fp_text fp_bytes fp_text]
  have h: "ca_convertFingerprint fp_colons = Inr fp_bytes
    \<and> map ToLower (TrimSpace (Replace_colons fp_text)) =
        map ToLower (TrimSpace (Replace_colons fp_colons))"
    by (simp add: ca_convertFingerprint_fp_colons TrimSpace_fp_colons TrimSpace_fp_text)
  have a: "ca_convertFingerprint fp_text = Inr fp_bytes"
    using mp [OF conjunct2 [OF conjunct2 [OF conjunct2 [OF conjunct2 [OF T]]]] h] .
  have b: "spec_Parse fp_colons = Some fp_bytes"
    using iffD1 [OF conjunct1 [OF T] ca_convertFingerprint_fp_colons] .
  have c: "list_all is_hex_digit fp_text \<and> length fp_text = 64 \<and> fp_bytes = hex_bytes fp_text"
    using iffD1 [OF conjunct1 [OF conjunct2 [OF conjunct2 [OF T']]]
        tls_convertFingerprint_fp_text] .
  show ?thesis
    by (intro conjI) (fact h [THEN conjunct1] h [THEN conjunct2] a b
        tls_convertFingerprint_fp_text c [THEN conjunct1] c [THEN conjunct2, THEN conjunct1]
        c [THEN conjunct2, THEN conjunct2])+
qed

end
